theory Spec2Isabelle
  imports Complex_Main "HOL-Library.Word"
begin

section \<open>Faults and process outcomes\<close>

text \<open>
  The program is C++: an access through \<open>operator[]\<close> beyond a vector's size, or
  a null \<open>char *\<close> handed to \<open>std::string\<close>, is undefined behaviour and raises
  nothing. The model makes every such access a value of type \<open>fault\<close>, so that no
  unspecified \<open>xs ! i\<close> is ever evaluated.
\<close>

datatype fault =
    OutOfRange nat  \<comment> \<open>\<open>v[i]\<close> with \<open>i \<ge> v.size()\<close>; the index\<close>
  | NullArgument    \<comment> \<open>\<open>argv[argc]\<close>, a null pointer, used as a string\<close>

datatype exn =
    Invalid_argument  \<comment> \<open>\<open>std::invalid_argument\<close>\<close>
  | Out_of_range      \<comment> \<open>\<open>std::out_of_range\<close>\<close>
  | Length_error      \<comment> \<open>\<open>std::length_error\<close>\<close>

datatype outcome =
    Exit int        \<comment> \<open>\<open>return n\<close> from \<open>main\<close>, or \<open>exit(n)\<close>\<close>
  | Uncaught exn    \<comment> \<open>an exception nobody catches: \<open>std::terminate\<close>\<close>
  | Undefined fault \<comment> \<open>undefined behaviour\<close>

text \<open>\<open>(size_t) i\<close> for a signed \<open>i\<close>, with \<open>size_t\<close> of 64 bits.\<close>

definition to_size_t :: "int \<Rightarrow> nat" where
  "to_size_t i = nat (i mod 2 ^ 64)"

text \<open>A checked read: \<open>v[i]\<close>.\<close>

definition vec_at :: "'a list \<Rightarrow> nat \<Rightarrow> fault + 'a" where
  "vec_at v i = (if i < length v then Inr (v ! i) else Inl (OutOfRange i))"

section \<open>Transcript assembly: the first loop of \<open>output_transcription\<close>\<close>

text \<open>
  What \<open>whisper_full_get_segment_t0\<close> and \<open>whisper_full_get_segment_text\<close> return for
  one segment: an \<open>int64_t\<close> in centiseconds and a C string.
\<close>

record segment =
  seg_t0 :: int
  seg_text :: string

text \<open>
  An entry of \<open>words\<close>, a \<open>std::pair<std::string, double>\<close>. The time is kept as the
  quotient \<open>start / 100\<close> itself; the \<open>double\<close> of the program is that quotient
  rounded.
\<close>

type_synonym word_entry = "string \<times> real"

text \<open>\<open>text[0] == ' '\<close>: false on the empty string, whose first byte is the terminator.\<close>

definition begins_with_space :: "string \<Rightarrow> bool" where
  "begins_with_space text = (case text of c # _ \<Rightarrow> c = CHR '' '' | [] \<Rightarrow> False)"

text \<open>
  The body of the loop at segment \<open>s\<close>. \<open>text + sizeof(char)\<close> is the text after
  its first character. \<open>words.size() - 1\<close> is unsigned: it is \<open>2^64 - 1\<close> when
  \<open>words\<close> is empty.
\<close>

definition assemble_step :: "segment \<Rightarrow> word_entry list \<Rightarrow> fault + word_entry list" where
  "assemble_step s words =
     (let start = real_of_int (seg_t0 s);
          time = start / 100;
          text = seg_text s
      in if begins_with_space text then Inr (words @ [(tl text, time)])
         else
           let last = to_size_t (int (length words) - 1)
           in case vec_at words last of
                Inl e \<Rightarrow> Inl e
              | Inr w \<Rightarrow> Inr (words[last := (fst w @ text, snd w)]))"

fun assemble_loop :: "segment list \<Rightarrow> word_entry list \<Rightarrow> fault + word_entry list" where
  "assemble_loop [] words = Inr words"
| "assemble_loop (s # ss) words =
     (case assemble_step s words of
        Inl e \<Rightarrow> Inl e
      | Inr words' \<Rightarrow> assemble_loop ss words')"

text \<open>\<open>for (int i = 1; i < n_segments; ++i)\<close>: every segment but the one at index 0.\<close>

definition assemble :: "segment list \<Rightarrow> fault + word_entry list" where
  "assemble segs = assemble_loop (drop 1 segs) []"

section \<open>Transcript writing: the second loop of \<open>output_transcription\<close>\<close>

text \<open>
  \<open>fout << word.second\<close> prints a \<open>double\<close> through the stream's default
  formatting, which belongs to the standard library: the writer takes it as the
  parameter \<open>fmt\<close>.

  One word is printed, and then compared with \<open>words[n_segments - 1]\<close>, where
  \<open>n_segments\<close> is the number of segments of the engine (the skipped one included)
  and the index is converted from \<open>int\<close> to \<open>size_t\<close>.
\<close>

definition write_word :: "(real \<Rightarrow> string) \<Rightarrow> word_entry \<Rightarrow> string" where
  \<open>write_word fmt word =
     ''{"labelText": '' @ ''"'' @ fst word @ ''", '' @ ''"time": '' @ fmt (snd word) @ ''}''\<close>

fun write_loop ::
  "(real \<Rightarrow> string) \<Rightarrow> nat \<Rightarrow> word_entry list \<Rightarrow> word_entry list \<Rightarrow> string \<Rightarrow> fault + string"
where
  "write_loop fmt n_segments words [] fout = Inr fout"
| "write_loop fmt n_segments words (word # rest) fout =
     (let fout = fout @ write_word fmt word
      in case vec_at words (to_size_t (int n_segments - 1)) of
           Inl e \<Rightarrow> Inl e
         | Inr w \<Rightarrow>
             write_loop fmt n_segments words rest (if word \<noteq> w then fout @ '', '' else fout))"

definition write_words :: "(real \<Rightarrow> string) \<Rightarrow> nat \<Rightarrow> word_entry list \<Rightarrow> fault + string" where
  "write_words fmt n_segments words =
     (case write_loop fmt n_segments words words ''['' of
        Inl e \<Rightarrow> Inl e
      | Inr fout \<Rightarrow> Inr (fout @ '']''))"

text \<open>
  \<open>output_transcription\<close>: \<open>None\<close> is \<open>return false\<close> (the file could not be
  opened, and nothing else is done), \<open>Some text\<close> is \<open>return true\<close> with the text
  written to the file.
\<close>

definition output_transcription ::
  "(real \<Rightarrow> string) \<Rightarrow> bool \<Rightarrow> segment list \<Rightarrow> fault + string option"
where
  "output_transcription fmt is_open segs =
     (if \<not> is_open then Inr None
      else
        let n_segments = length segs
        in case assemble segs of
             Inl e \<Rightarrow> Inl e
           | Inr words \<Rightarrow>
               (case write_words fmt n_segments words of
                  Inl e \<Rightarrow> Inl e
                | Inr fout \<Rightarrow> Inr (Some fout)))"

section \<open>Paths\<close>

text \<open>
  \<open>std::filesystem::path\<close> belongs to the standard library. Its members that
  \<open>main\<close> calls are written here on the pathname as a string, for POSIX pathnames
  (separator \<open>/\<close>, no root name), after the C++17 standard's [fs.path.decompose]
  and [fs.path.append].
\<close>

definition is_sep :: "char \<Rightarrow> bool" where
  "is_sep c = (c = CHR ''/'')"

text \<open>\<open>filename()\<close>: what follows the last separator; empty when the path ends in one.\<close>

definition path_filename :: "string \<Rightarrow> string" where
  "path_filename p = rev (takeWhile (\<lambda>c. \<not> is_sep c) (rev p))"

text \<open>
  \<open>parent_path()\<close>: the path itself when it has no relative part (it is empty or
  only separators); otherwise the path without its last element and without the
  separators before it, where the root directory is kept as \<open>/\<close>.
\<close>

definition parent_path :: "string \<Rightarrow> string" where
  "parent_path p =
     (if dropWhile is_sep p = [] then p
      else
        let q = rev (dropWhile (\<lambda>c. \<not> is_sep c) (rev p));
            r = rev (dropWhile is_sep (rev q))
        in if r = [] then (if q = [] then [] else ''/'') else r)"

text \<open>
  \<open>stem()\<close>: the filename, without what starts at its last period, unless the
  filename is \<open>.\<close> or \<open>..\<close>, has no period, or has its last period first.
\<close>

definition path_stem :: "string \<Rightarrow> string" where
  "path_stem p =
     (let f = path_filename p
      in if f = ''.'' \<or> f = ''..'' then f
         else if CHR ''.'' \<notin> set f then f
         else
           let pos = length f - length (takeWhile (\<lambda>c. c \<noteq> CHR ''.'') (rev f)) - 1
           in if pos = 0 then f else take pos f)"

text \<open>
  \<open>operator/\<close>: an absolute right operand replaces the left one; otherwise a
  separator is put between the two when the left one has a filename.
\<close>

definition path_append :: "string \<Rightarrow> string \<Rightarrow> string" where
  "path_append p q =
     (case q of
        c # _ \<Rightarrow>
          if is_sep c then q
          else if path_filename p \<noteq> [] then p @ ''/'' @ q
          else p @ q
      | [] \<Rightarrow> if path_filename p \<noteq> [] then p @ ''/'' else p)"

text \<open>The check of \<open>main\<close> on an input file, and the path its transcript is written to.\<close>

definition layout_ok :: "string \<Rightarrow> bool" where
  "layout_ok fname =
     (let grandparent = parent_path (parent_path fname)
      in path_stem grandparent = ''data'')"

definition out_path :: "string \<Rightarrow> string" where
  "out_path fname =
     (let grandparent = parent_path (parent_path fname);
          transcription = path_append grandparent ''transcriptions'';
          out_filename = path_stem fname @ ''-transcription.json''
      in path_append transcription out_filename)"

section \<open>Command-line parameters\<close>

text \<open>
  \<open>std::stoi\<close> (base 10, the C locale): white space, an optional sign, then digits,
  read as far as they go. No digit is \<open>std::invalid_argument\<close>; a value that does
  not fit \<open>int\<close> (32 bits) is \<open>std::out_of_range\<close>.
\<close>

definition isspace_c :: "char \<Rightarrow> bool" where
  "isspace_c c = (c \<in> set [CHR '' '', CHR 0x09, CHR 0x0A, CHR 0x0B, CHR 0x0C, CHR 0x0D])"

definition isdigit_c :: "char \<Rightarrow> bool" where
  "isdigit_c c = (48 \<le> (of_char c :: nat) \<and> (of_char c :: nat) \<le> 57)"

fun digits_value :: "string \<Rightarrow> int \<Rightarrow> int" where
  "digits_value [] acc = acc"
| "digits_value (c # cs) acc = digits_value cs (10 * acc + (int (of_char c) - 48))"

definition stoi :: "string \<Rightarrow> exn + int" where
  "stoi str =
     (let s = dropWhile isspace_c str;
          neg = (case s of c # _ \<Rightarrow> c = CHR ''-'' | [] \<Rightarrow> False);
          s' = (case s of c # r \<Rightarrow> if c = CHR ''-'' \<or> c = CHR ''+'' then r else s | [] \<Rightarrow> s);
          ds = takeWhile isdigit_c s'
      in if ds = [] then Inl Invalid_argument
         else
           let v = (if neg then - digits_value ds 0 else digits_value ds 0)
           in if v < - (2 ^ 31) \<or> 2 ^ 31 - 1 < v then Inl Out_of_range else Inr v)"

text \<open>
  \<open>whisper_full_params\<close>, the engine's request: the fields \<open>main\<close> assigns. The
  callback is left out: it reads a flag that is never set.
\<close>

record whisper_full_params =
  print_realtime :: bool
  print_progress :: bool
  print_timestamps :: bool
  print_special :: bool
  translate :: bool
  language :: string
  n_threads :: int
  n_max_text_ctx :: int
  offset_ms :: int
  duration_ms :: int
  token_timestamps :: bool
  thold_pt :: real
  max_len :: int
  speed_up :: bool
  prompt_tokens :: "int list"

text \<open>\<open>struct whisper_params\<close>; \<open>int32_t\<close> fields hold what \<open>stoi\<close> returns.\<close>

record whisper_params =
  n_threads :: int
  n_processors :: int
  offset_t_ms :: int
  offset_n :: int
  duration_ms :: int
  max_context :: int
  max_len :: int
  word_thold :: real
  speed_up :: bool
  translate :: bool
  diarize :: bool
  output_txt :: bool
  output_vtt :: bool
  output_srt :: bool
  output_wts :: bool
  output_csv :: bool
  print_special :: bool
  print_colors :: bool
  print_progress :: bool
  no_timestamps :: bool
  language :: string
  prompt :: string
  model :: string
  fname_inp :: "string list"

section \<open>The world outside the program\<close>

text \<open>
  \<open>struct drwav\<close> after a successful \<open>drwav_init_*\<close>: the header fields \<open>main\<close>
  reads, and the interleaved 16-bit samples \<open>drwav_read_pcm_frames_s16\<close> can
  deliver.
\<close>

record drwav =
  channels :: nat
  sampleRate :: nat
  bitsPerSample :: nat
  totalPCMFrameCount :: nat
  pcm_s16 :: "16 word list"

text \<open>
  The engine, the WAV library, the file system and the standard library's number
  conversions, as the functions the program calls. \<open>whisper_init_from_file\<close> tells
  whether the handle is non-null; \<open>whisper_tokenize\<close> gives its return value and the
  tokens it stores; \<open>whisper_full_parallel\<close> gives its status and the segments the
  context holds afterwards; \<open>ofstream_is_open\<close> tells whether a path opens for
  writing; \<open>print_double\<close> is \<open>operator<<\<close> on a \<open>double\<close>.
\<close>

record world =
  hardware_concurrency :: nat
  stof :: "string \<Rightarrow> exn + real"
  whisper_lang_id :: "string \<Rightarrow> int"
  whisper_init_from_file :: "string \<Rightarrow> bool"
  whisper_tokenize :: "string \<Rightarrow> nat \<Rightarrow> int \<times> int list"
  whisper_full_default_params :: whisper_full_params
  whisper_full_parallel :: "whisper_full_params \<Rightarrow> real list \<Rightarrow> int \<Rightarrow> int \<times> segment list"
  drwav_init_file :: "string \<Rightarrow> drwav option"
  drwav_init_memory :: "8 word list \<Rightarrow> drwav option"
  stdin :: "8 word list"
  ofstream_is_open :: "string \<Rightarrow> bool"
  print_double :: "real \<Rightarrow> string"

text \<open>
  Modelled from the spec: \<open>WHISPER_SAMPLE_RATE\<close>, a macro of \<open>whisper.h\<close>, which is
  not among the sources; the spec gives 16000 Hz.
\<close>

definition WHISPER_SAMPLE_RATE :: nat where
  "WHISPER_SAMPLE_RATE = 16000"

text \<open>The member initialisers of \<open>whisper_params\<close> (\<open>0.01f\<close> is the float next to 1/100).\<close>

definition default_params :: "world \<Rightarrow> whisper_params" where
  "default_params env =
     \<lparr> n_threads = min 4 (int (hardware_concurrency env)),
       n_processors = 1,
       offset_t_ms = 0,
       offset_n = 0,
       duration_ms = 0,
       max_context = - 1,
       max_len = 0,
       word_thold = 1 / 100,
       speed_up = False,
       translate = False,
       diarize = False,
       output_txt = False,
       output_vtt = False,
       output_srt = False,
       output_wts = False,
       output_csv = False,
       print_special = False,
       print_colors = False,
       print_progress = False,
       no_timestamps = False,
       language = ''en'',
       prompt = [],
       model = ''models/ggml-base.en.bin'',
       fname_inp = [] \<rparr>"

section \<open>\<open>whisper_params_parse\<close>\<close>

text \<open>
  An option that takes a value reads \<open>argv[++i]\<close>, which is the null pointer when
  the option is the last argument. The three helpers are the right-hand sides
  \<open>std::stoi(argv[++i])\<close>, \<open>std::stof(argv[++i])\<close> and \<open>argv[++i]\<close>; the result
  says that one more argument was consumed.
\<close>

definition int_value ::
  "string option \<Rightarrow> (int \<Rightarrow> whisper_params) \<Rightarrow> outcome + whisper_params \<times> bool"
where
  "int_value nxt set_field =
     (case nxt of
        None \<Rightarrow> Inl (Undefined NullArgument)
      | Some v \<Rightarrow>
          (case stoi v of
             Inl e \<Rightarrow> Inl (Uncaught e)
           | Inr n \<Rightarrow> Inr (set_field n, True)))"

definition float_value ::
  "world \<Rightarrow> string option \<Rightarrow> (real \<Rightarrow> whisper_params) \<Rightarrow> outcome + whisper_params \<times> bool"
where
  "float_value env nxt set_field =
     (case nxt of
        None \<Rightarrow> Inl (Undefined NullArgument)
      | Some v \<Rightarrow>
          (case stof env v of
             Inl e \<Rightarrow> Inl (Uncaught e)
           | Inr x \<Rightarrow> Inr (set_field x, True)))"

definition string_value ::
  "string option \<Rightarrow> (string \<Rightarrow> whisper_params) \<Rightarrow> outcome + whisper_params \<times> bool"
where
  "string_value nxt set_field =
     (case nxt of
        None \<Rightarrow> Inl (Undefined NullArgument)
      | Some v \<Rightarrow> Inr (set_field v, True))"

text \<open>
  One turn of the loop on \<open>arg = argv[i]\<close>, with \<open>nxt\<close> the argument after it.
  \<open>arg[0]\<close> of the empty string is the terminator, which is not \<open>-\<close>. Both
  \<open>-h\<close> and an unknown option print the usage and \<open>exit(0)\<close>.
\<close>

definition parse_arg ::
  "world \<Rightarrow> string \<Rightarrow> string option \<Rightarrow> whisper_params \<Rightarrow> outcome + whisper_params \<times> bool"
where
  "parse_arg env arg nxt params =
     (if (case arg of c # _ \<Rightarrow> c \<noteq> CHR ''-'' | [] \<Rightarrow> True)
      then Inr (params\<lparr>fname_inp := fname_inp params @ [arg]\<rparr>, False)
      else if arg = ''-h'' \<or> arg = ''--help'' then Inl (Exit 0)
      else if arg = ''-t'' \<or> arg = ''--threads'' then int_value nxt (\<lambda>n. params\<lparr>n_threads := n\<rparr>)
      else if arg = ''-p'' \<or> arg = ''--processors'' then int_value nxt (\<lambda>n. params\<lparr>n_processors := n\<rparr>)
      else if arg = ''-ot'' \<or> arg = ''--offset-t'' then int_value nxt (\<lambda>n. params\<lparr>offset_t_ms := n\<rparr>)
      else if arg = ''-on'' \<or> arg = ''--offset-n'' then int_value nxt (\<lambda>n. params\<lparr>offset_n := n\<rparr>)
      else if arg = ''-d'' \<or> arg = ''--duration'' then int_value nxt (\<lambda>n. params\<lparr>duration_ms := n\<rparr>)
      else if arg = ''-mc'' \<or> arg = ''--max-context'' then int_value nxt (\<lambda>n. params\<lparr>max_context := n\<rparr>)
      else if arg = ''-ml'' \<or> arg = ''--max-len'' then int_value nxt (\<lambda>n. params\<lparr>max_len := n\<rparr>)
      else if arg = ''-wt'' \<or> arg = ''--word-thold'' then float_value env nxt (\<lambda>x. params\<lparr>word_thold := x\<rparr>)
      else if arg = ''-su'' \<or> arg = ''--speed-up'' then Inr (params\<lparr>speed_up := True\<rparr>, False)
      else if arg = ''-tr'' \<or> arg = ''--translate'' then Inr (params\<lparr>translate := True\<rparr>, False)
      else if arg = ''-di'' \<or> arg = ''--diarize'' then Inr (params\<lparr>diarize := True\<rparr>, False)
      else if arg = ''-ps'' \<or> arg = ''--print-special'' then Inr (params\<lparr>print_special := True\<rparr>, False)
      else if arg = ''-pc'' \<or> arg = ''--print-colors'' then Inr (params\<lparr>print_colors := True\<rparr>, False)
      else if arg = ''-pp'' \<or> arg = ''--print-progress'' then Inr (params\<lparr>print_progress := True\<rparr>, False)
      else if arg = ''-nt'' \<or> arg = ''--no-timestamps'' then Inr (params\<lparr>no_timestamps := True\<rparr>, False)
      else if arg = ''-l'' \<or> arg = ''--language'' then string_value nxt (\<lambda>v. params\<lparr>language := v\<rparr>)
      else if arg = ''--prompt'' then string_value nxt (\<lambda>v. params\<lparr>prompt := v\<rparr>)
      else if arg = ''-m'' \<or> arg = ''--model'' then string_value nxt (\<lambda>v. params\<lparr>model := v\<rparr>)
      else if arg = ''-f'' \<or> arg = ''--file''
        then string_value nxt (\<lambda>v. params\<lparr>fname_inp := fname_inp params @ [v]\<rparr>)
      else Inl (Exit 0))"

text \<open>
  The loop over \<open>argv[1]\<close>, \<open>argv[2]\<close>, ...: \<open>args\<close> are the arguments not yet
  read. The function returns \<open>true\<close> whenever it returns.
\<close>

function whisper_params_parse ::
  "world \<Rightarrow> string list \<Rightarrow> whisper_params \<Rightarrow> outcome + whisper_params"
where
  "whisper_params_parse env [] params = Inr params"
| "whisper_params_parse env (arg # args) params =
     (case parse_arg env arg (case args of [] \<Rightarrow> None | v # _ \<Rightarrow> Some v) params of
        Inl out \<Rightarrow> Inl out
      | Inr (params', consumed) \<Rightarrow>
          whisper_params_parse env (if consumed then tl args else args) params')"
  by pat_completeness auto
termination
  by (relation "measure (\<lambda>(env, args, params). length args)") auto

section \<open>Audio loading\<close>

text \<open>
  \<open>fread(buf, 1, sizeof(buf), stdin)\<close> on the bytes left of standard input, and
  the loop that appends each block to \<open>wav_data\<close> until a read returns nothing.
  Standard input is a finite list here: the loop ends.
\<close>

definition fread :: "nat \<Rightarrow> 8 word list \<Rightarrow> 8 word list \<times> 8 word list" where
  "fread count inp = (take count inp, drop count inp)"

function read_stdin :: "8 word list \<Rightarrow> 8 word list \<Rightarrow> 8 word list \<times> 8 word list" where
  "read_stdin wav_data inp =
     (let (buf, inp') = fread 1024 inp;
          n = length buf
      in if n = 0 then (wav_data, inp')
         else read_stdin (wav_data @ buf) inp')"
  by pat_completeness auto
termination
  by (relation "measure (\<lambda>(wav_data, inp). length inp)") (auto simp: fread_def)

declare read_stdin.simps [simp del]

text \<open>
  Opening the input: the name \<open>-\<close> reads standard input to its end and opens the
  bytes (exit status 4 on failure); any other name is opened as a file (5). The
  result holds \<open>wav\<close>, \<open>wav_data\<close> and what is left of standard input.
\<close>

definition open_wav ::
  "world \<Rightarrow> string \<Rightarrow> 8 word list \<Rightarrow> outcome + drwav \<times> 8 word list \<times> 8 word list"
where
  "open_wav env fname inp =
     (if fname = ''-'' then
        (let (wav_data, inp') = read_stdin [] inp
         in case drwav_init_memory env wav_data of
              None \<Rightarrow> Inl (Exit 4)
            | Some wav \<Rightarrow> Inr (wav, wav_data, inp'))
      else
        (case drwav_init_file env fname of
           None \<Rightarrow> Inl (Exit 5)
         | Some wav \<Rightarrow> Inr (wav, [], inp)))"

text \<open>The four checks on the header, in the order of the source, with their \<open>return\<close>s.\<close>

definition check_format :: "whisper_params \<Rightarrow> drwav \<Rightarrow> outcome option" where
  "check_format params wav =
     (if channels wav \<noteq> 1 \<and> channels wav \<noteq> 2 then Some (Exit 6)
      else if diarize params \<and> channels wav \<noteq> 2 \<and> no_timestamps params = False then Some (Exit 6)
      else if sampleRate wav \<noteq> WHISPER_SAMPLE_RATE then Some (Exit 8)
      else if bitsPerSample wav \<noteq> 16 then Some (Exit 9)
      else None)"

text \<open>
  The frame count \<open>n\<close>, and \<open>pcm16\<close> after \<open>resize(n * channels)\<close> (zeros) and
  \<open>drwav_read_pcm_frames_s16\<close>, which stores the frames it has, at most \<open>n\<close>.
  The program gets here after \<open>check_format\<close>, with 1 or 2 channels of 16 bits:
  the divisor is 2 or 4. Counts are natural numbers: the \<open>uint64_t\<close> product
  \<open>n * channels\<close> is taken not to wrap.
\<close>

definition frame_count :: "drwav \<Rightarrow> 8 word list \<Rightarrow> nat" where
  "frame_count wav wav_data =
     (if wav_data = [] then totalPCMFrameCount wav
      else length wav_data div (channels wav * bitsPerSample wav div 8))"

definition read_pcm16 :: "drwav \<Rightarrow> nat \<Rightarrow> 16 word list" where
  "read_pcm16 wav n =
     (let frames_read = min n (length (pcm_s16 wav) div channels wav);
          got = take (frames_read * channels wav) (pcm_s16 wav)
      in got @ replicate (n * channels wav - length got) 0)"

text \<open>
  \<open>for (uint64_t i = 0; i < n; i++) out[i] = f(i)\<close>, where \<open>f\<close> may read out of
  range: the loop stops at the first such read.
\<close>

primrec for_each :: "(nat \<Rightarrow> fault + 'a) \<Rightarrow> nat list \<Rightarrow> fault + 'a list" where
  "for_each f [] = Inr []"
| "for_each f (i # is) =
     (case f i of
        Inl e \<Rightarrow> Inl e
      | Inr x \<Rightarrow> (case for_each f is of Inl e \<Rightarrow> Inl e | Inr xs \<Rightarrow> Inr (x # xs)))"

text \<open>
  The conversions of one frame. A \<open>float\<close> is modelled by the real number it
  holds: an \<open>int16_t\<close>, and the \<open>int\<close> sum of two, convert to \<open>float\<close> without
  rounding, and so does their division by a power of two.
\<close>

definition mono_sample :: "16 word list \<Rightarrow> nat \<Rightarrow> fault + real" where
  "mono_sample pcm16 i =
     (case vec_at pcm16 i of
        Inl e \<Rightarrow> Inl e
      | Inr a \<Rightarrow> Inr (real_of_int (sint a) / 32768))"

definition downmix_sample :: "16 word list \<Rightarrow> nat \<Rightarrow> fault + real" where
  "downmix_sample pcm16 i =
     (case vec_at pcm16 (2 * i) of
        Inl e \<Rightarrow> Inl e
      | Inr a \<Rightarrow>
          (case vec_at pcm16 (2 * i + 1) of
             Inl e \<Rightarrow> Inl e
           | Inr b \<Rightarrow> Inr (real_of_int (sint a + sint b) / 65536)))"

definition stereo_sample :: "16 word list \<Rightarrow> nat \<Rightarrow> fault + real \<times> real" where
  "stereo_sample pcm16 i =
     (case vec_at pcm16 (2 * i) of
        Inl e \<Rightarrow> Inl e
      | Inr a \<Rightarrow>
          (case vec_at pcm16 (2 * i + 1) of
             Inl e \<Rightarrow> Inl e
           | Inr b \<Rightarrow> Inr (real_of_int (sint a) / 32768, real_of_int (sint b) / 32768)))"

text \<open>
  From \<open>const uint64_t n = ...\<close> to the end of the WAV block: \<open>pcmf32\<close>, and
  \<open>pcmf32s\<close> (its two channels) when \<open>params.diarize\<close> is set.
\<close>

definition load_samples ::
  "bool \<Rightarrow> drwav \<Rightarrow> 8 word list \<Rightarrow> fault + real list \<times> (real list \<times> real list) option"
where
  "load_samples diarize_set wav wav_data =
     (let n = frame_count wav wav_data;
          pcm16 = read_pcm16 wav n
      in case (if channels wav = 1 then for_each (mono_sample pcm16) [0..<n]
               else for_each (downmix_sample pcm16) [0..<n]) of
           Inl e \<Rightarrow> Inl e
         | Inr pcmf32 \<Rightarrow>
             if diarize_set then
               (case for_each (stereo_sample pcm16) [0..<n] of
                  Inl e \<Rightarrow> Inl e
                | Inr lr \<Rightarrow> Inr (pcmf32, Some (map fst lr, map snd lr)))
             else Inr (pcmf32, None))"

section \<open>The request to the engine\<close>

text \<open>\<open>wparams\<close> as \<open>main\<close> fills it, starting from the engine's defaults.\<close>

definition make_wparams ::
  "whisper_full_params \<Rightarrow> whisper_params \<Rightarrow> int list \<Rightarrow> whisper_full_params"
where
  "make_wparams defaults params tokens =
     defaults
     \<lparr> print_realtime := False,
       whisper_full_params.print_progress := print_progress params,
       print_timestamps := \<not> no_timestamps params,
       whisper_full_params.print_special := print_special params,
       whisper_full_params.translate := translate params,
       whisper_full_params.language := language params,
       whisper_full_params.n_threads := n_threads params,
       n_max_text_ctx :=
         (if max_context params \<ge> 0 then max_context params else n_max_text_ctx defaults),
       offset_ms := offset_t_ms params,
       whisper_full_params.duration_ms := duration_ms params,
       token_timestamps := (output_wts params \<or> max_len params > 0),
       thold_pt := word_thold params,
       whisper_full_params.max_len :=
         (if output_wts params \<and> max_len params = 0 then 60 else max_len params),
       whisper_full_params.speed_up := speed_up params,
       prompt_tokens := tokens \<rparr>"

text \<open>
  The initial prompt: \<open>resize(1024)\<close>, then \<open>resize\<close> to what
  \<open>whisper_tokenize\<close> returns. A negative return value is a huge \<open>size_t\<close>, and
  \<open>resize\<close> throws \<open>std::length_error\<close>.
\<close>

definition tokenize_prompt :: "world \<Rightarrow> whisper_params \<Rightarrow> outcome + int list" where
  "tokenize_prompt env params =
     (if prompt params = [] then Inr []
      else
        let (r, stored) = whisper_tokenize env (prompt params) 1024;
            buffer = take 1024 (stored @ replicate 1024 0)
        in if r < 0 then Inl (Uncaught Length_error)
           else Inr (take (nat r) (buffer @ replicate (nat r) 0)))"

section \<open>\<open>main\<close>\<close>

text \<open>
  One turn of the loop over the input files. The result is the file written (its
  path and text, if it opened) and what is left of standard input.
\<close>

definition process_file ::
  "world \<Rightarrow> whisper_params \<Rightarrow> int list \<Rightarrow> string \<Rightarrow> 8 word list \<Rightarrow>
     outcome + (string \<times> string) option \<times> 8 word list"
where
  "process_file env params tokens fname inp =
     (if \<not> layout_ok fname then Inl (Uncaught Invalid_argument)
      else
        case open_wav env fname inp of
          Inl out \<Rightarrow> Inl out
        | Inr (wav, wav_data, inp') \<Rightarrow>
            (case check_format params wav of
               Some out \<Rightarrow> Inl out
             | None \<Rightarrow>
                 (case load_samples (diarize params) wav wav_data of
                    Inl e \<Rightarrow> Inl (Undefined e)
                  | Inr (pcmf32, pcmf32s) \<Rightarrow>
                      let wparams = make_wparams (whisper_full_default_params env) params tokens;
                          (status, segs) =
                            whisper_full_parallel env wparams pcmf32 (n_processors params)
                      in if status \<noteq> 0 then Inl (Exit 10)
                         else
                           (case output_transcription (print_double env)
                                   (ofstream_is_open env (out_path fname)) segs of
                              Inl e \<Rightarrow> Inl (Undefined e)
                            | Inr written \<Rightarrow>
                                Inr (map_option (Pair (out_path fname)) written, inp')))))"

fun run_files ::
  "world \<Rightarrow> whisper_params \<Rightarrow> int list \<Rightarrow> string list \<Rightarrow> 8 word list \<Rightarrow> outcome"
where
  "run_files env params tokens [] inp = Exit 0"
| "run_files env params tokens (fname # rest) inp =
     (case process_file env params tokens fname inp of
        Inl out \<Rightarrow> out
      | Inr (written, inp') \<Rightarrow> run_files env params tokens rest inp')"

text \<open>\<open>main\<close>, after the parameters are parsed, and \<open>main\<close> on \<open>argv\<close>.\<close>

definition main_with :: "world \<Rightarrow> whisper_params \<Rightarrow> outcome" where
  "main_with env params =
     (if fname_inp params = [] then Exit 2
      else if language params \<noteq> ''auto'' \<and> whisper_lang_id env (language params) = - 1
        then Exit 0
      else if \<not> whisper_init_from_file env (model params) then Exit 3
      else
        case tokenize_prompt env params of
          Inl out \<Rightarrow> out
        | Inr tokens \<Rightarrow> run_files env params tokens (fname_inp params) (stdin env))"

definition main :: "world \<Rightarrow> string list \<Rightarrow> outcome" where
  "main env argv =
     (case whisper_params_parse env (drop 1 argv) (default_params env) of
        Inl out \<Rightarrow> out
      | Inr params \<Rightarrow> main_with env params)"

section \<open>The options of the parser\<close>

text \<open>The strings \<open>whisper_params_parse\<close> compares an argument with.\<close>

definition known_options :: "string list" where
  "known_options =
     [''-h'', ''--help'', ''-t'', ''--threads'', ''-p'', ''--processors'', ''-ot'', ''--offset-t'',
      ''-on'', ''--offset-n'', ''-d'', ''--duration'', ''-mc'', ''--max-context'', ''-ml'',
      ''--max-len'', ''-wt'', ''--word-thold'', ''-su'', ''--speed-up'', ''-tr'', ''--translate'',
      ''-di'', ''--diarize'', ''-ps'', ''--print-special'', ''-pc'', ''--print-colors'', ''-pp'',
      ''--print-progress'', ''-nt'', ''--no-timestamps'', ''-l'', ''--language'', ''--prompt'',
      ''-m'', ''--model'', ''-f'', ''--file'']"

text \<open>The options whose value goes through \<open>std::stoi\<close>, and through \<open>std::stof\<close>.\<close>

definition stoi_options :: "string list" where
  "stoi_options =
     [''-t'', ''--threads'', ''-p'', ''--processors'', ''-ot'', ''--offset-t'', ''-on'',
      ''--offset-n'', ''-d'', ''--duration'', ''-mc'', ''--max-context'', ''-ml'', ''--max-len'']"

definition stof_options :: "string list" where
  "stof_options = [''-wt'', ''--word-thold'']"

section \<open>A sample world\<close>

text \<open>
  Concrete inputs on which the program is run below: a stereo file of one frame at
  16 kHz and 16 bits, an engine that knows the language \<open>en\<close> and returns the
  placeholder segment alone, and a file system where every path opens.
\<close>

definition sample_defaults :: whisper_full_params where
  "sample_defaults =
     \<lparr> print_realtime = True, print_progress = True, print_timestamps = True,
       print_special = False, translate = False, language = ''en'', n_threads = 4,
       n_max_text_ctx = 16384, offset_ms = 0, duration_ms = 0, token_timestamps = False,
       thold_pt = 1 / 100, max_len = 0, speed_up = False, prompt_tokens = [] \<rparr>"

definition sample_wav :: drwav where
  "sample_wav =
     \<lparr> channels = 2, sampleRate = 16000, bitsPerSample = 16, totalPCMFrameCount = 1,
       pcm_s16 = [16384, 0] \<rparr>"

definition sample_world :: world where
  "sample_world =
     \<lparr> hardware_concurrency = 8,
       stof = (\<lambda>v. Inl Invalid_argument),
       whisper_lang_id = (\<lambda>l. if l = ''en'' then 0 else - 1),
       whisper_init_from_file = (\<lambda>m. True),
       whisper_tokenize = (\<lambda>text n_max. (0, [])),
       whisper_full_default_params = sample_defaults,
       whisper_full_parallel = (\<lambda>wparams samples n. (0, [\<lparr>seg_t0 = 0, seg_text = []\<rparr>])),
       drwav_init_file = (\<lambda>f. Some sample_wav),
       drwav_init_memory = (\<lambda>bytes. Some sample_wav),
       stdin = [],
       ofstream_is_open = (\<lambda>f. True),
       print_double = (\<lambda>x. []) \<rparr>"

text \<open>A mono file that declares three frames and holds two.\<close>

definition sample_mono_wav :: drwav where
  "sample_mono_wav =
     \<lparr> channels = 1, sampleRate = 16000, bitsPerSample = 16, totalPCMFrameCount = 3,
       pcm_s16 = [16384, - 32768] \<rparr>"

text \<open>The parameters of a run of the sample world on one file, with no option.\<close>

definition sample_params :: whisper_params where
  "sample_params = (default_params sample_world)\<lparr>fname_inp := [''data/foo/bar.wav'']\<rparr>"

section \<open>Properties of the transcript assembly\<close>

lemma to_size_t_pred: "0 < n \<Longrightarrow> n \<le> 2 ^ 64 \<Longrightarrow> to_size_t (int n - 1) = n - 1"
  unfolding to_size_t_def by (simp add: nat_diff_distrib')

lemma to_size_t_minus1: "to_size_t (- 1) = 2 ^ 64 - 1"
  unfolding to_size_t_def by simp

text \<open>The three ways one turn of the loop can go.\<close>

lemma assemble_step_new:
  "begins_with_space (seg_text s) \<Longrightarrow>
   assemble_step s words = Inr (words @ [(tl (seg_text s), real_of_int (seg_t0 s) / 100)])"
  by (simp add: assemble_step_def)

lemma assemble_step_empty:
  "\<not> begins_with_space (seg_text s) \<Longrightarrow> assemble_step s [] = Inl (OutOfRange (2 ^ 64 - 1))"
  by (simp add: assemble_step_def vec_at_def to_size_t_minus1)

lemma assemble_step_cont:
  assumes "\<not> begins_with_space (seg_text s)" and "length ws < 2 ^ 64"
  shows "assemble_step s (ws @ [(w, a)]) = Inr (ws @ [(w @ seg_text s, a)])"
proof -
  have "to_size_t (int (length (ws @ [(w, a)])) - 1) = length ws"
    using to_size_t_pred [of "length (ws @ [(w, a)])"] assms(2) by simp
  then show ?thesis
    using assms(1) by (simp add: assemble_step_def vec_at_def Let_def)
qed

text \<open>The loop makes at most one word per segment it reads.\<close>

lemma assemble_step_length:
  "assemble_step s ws = Inr ws' \<Longrightarrow> length ws' \<le> Suc (length ws)"
  by (auto simp: assemble_step_def Let_def split: if_splits sum.splits)

lemma assemble_loop_length:
  "assemble_loop ss ws = Inr ws' \<Longrightarrow> length ws' \<le> length ws + length ss"
proof (induction ss arbitrary: ws)
  case Nil
  then show ?case by simp
next
  case (Cons s ss)
  from Cons.prems obtain ws1 where s1: "assemble_step s ws = Inr ws1"
    and s2: "assemble_loop ss ws1 = Inr ws'"
    by (auto split: sum.splits)
  from Cons.IH [OF s2] assemble_step_length [OF s1] show ?case by simp
qed

lemma assemble_length:
  assumes "assemble segs = Inr words"
  shows "length words \<le> length segs - 1"
  using assemble_loop_length [of "drop 1 segs" "[]" words] assms
  by (simp add: assemble_def)

lemma hello_step1:
  "assemble_step \<lparr>seg_t0 = 100, seg_text = '' Hello''\<rparr> [] = Inr [(''Hello'', 1)]"
  by (simp add: assemble_step_new begins_with_space_def)

lemma hello_step2:
  "assemble_step \<lparr>seg_t0 = 250, seg_text = '' world''\<rparr> [(''Hello'', 1)] =
     Inr [(''Hello'', 1), (''world'', 5 / 2)]"
  by (simp add: assemble_step_new begins_with_space_def)

lemma hello_step3:
  "assemble_step \<lparr>seg_t0 = 250, seg_text = ''!''\<rparr> [(''Hello'', 1), (''world'', 5 / 2)] =
     Inr [(''Hello'', 1), (''world!'', 5 / 2)]"
  using assemble_step_cont [of "\<lparr>seg_t0 = 250, seg_text = ''!''\<rparr>" "[(''Hello'', 1)]" "''world''" "5 / 2"]
  by (simp add: begins_with_space_def)

text \<open>
  Claim C1. For the segments \<open>[sentinel, " Hello", " world", "!"]\<close> with start
  times \<open>[0, 100, 250, 250]\<close> centiseconds, whatever the segment at index 0 holds:
  \<open>" Hello"\<close> starts a word, without its one leading space, at 100/100 = 1 second;
  \<open>" world"\<close> starts a second word at 250/100 = 2.5 seconds; \<open>"!"\<close>, which has no
  leading space, is appended to the last word, whose time stays 2.5; and the
  assembled words are exactly \<open>[("Hello", 1.0), ("world!", 2.5)]\<close>.
\<close>

theorem assemble_hello_world:
  "assemble_step \<lparr>seg_t0 = 100, seg_text = '' Hello''\<rparr> [] = Inr [(''Hello'', 1)] \<and>
   assemble_step \<lparr>seg_t0 = 250, seg_text = '' world''\<rparr> [(''Hello'', 1)] =
     Inr [(''Hello'', 1), (''world'', 5 / 2)] \<and>
   assemble_step \<lparr>seg_t0 = 250, seg_text = ''!''\<rparr> [(''Hello'', 1), (''world'', 5 / 2)] =
     Inr [(''Hello'', 1), (''world!'', 5 / 2)] \<and>
   assemble
     [sentinel,
      \<lparr>seg_t0 = 100, seg_text = '' Hello''\<rparr>,
      \<lparr>seg_t0 = 250, seg_text = '' world''\<rparr>,
      \<lparr>seg_t0 = 250, seg_text = ''!''\<rparr>] =
     Inr [(''Hello'', 1), (''world!'', 5 / 2)]"
  by (simp add: assemble_def hello_step1 hello_step2 hello_step3)

theorem assemble_hello_world_witness:
  "assemble
     [\<lparr>seg_t0 = 0, seg_text = []\<rparr>,
      \<lparr>seg_t0 = 100, seg_text = '' Hello''\<rparr>,
      \<lparr>seg_t0 = 250, seg_text = '' world''\<rparr>,
      \<lparr>seg_t0 = 250, seg_text = ''!''\<rparr>] =
     Inr [(''Hello'', 1), (''world!'', 5 / 2)]"
  using assemble_hello_world [of "\<lparr>seg_t0 = 0, seg_text = []\<rparr>"] by blast

text \<open>
  Claim C2. The claim asks for an error when the first segment after the sentinel
  has no leading space. The program has no such check: with \<open>words\<close> still empty,
  \<open>words.size() - 1\<close> is \<open>2^64 - 1\<close>, and \<open>words[last]\<close> is read and assigned out
  of range, for every such sequence of segments.
\<close>

theorem assemble_first_continuation_out_of_range:
  assumes "\<not> begins_with_space (seg_text x)"
  shows "assemble (sentinel # x # rest) = Inl (OutOfRange (2 ^ 64 - 1))"
  using assms by (simp add: assemble_def assemble_step_empty)

theorem assemble_first_continuation_out_of_range_witness:
  "\<not> begins_with_space ''Hello'' \<and>
   assemble [\<lparr>seg_t0 = 0, seg_text = []\<rparr>, \<lparr>seg_t0 = 100, seg_text = ''Hello''\<rparr>] =
     Inl (OutOfRange (2 ^ 64 - 1))"
proof -
  have h: "\<not> begins_with_space (seg_text \<lparr>seg_t0 = 100, seg_text = ''Hello''\<rparr>)"
    by (simp add: begins_with_space_def)
  from assemble_first_continuation_out_of_range [OF h, of "\<lparr>seg_t0 = 0, seg_text = []\<rparr>" "[]"] h
  show ?thesis by simp
qed

section \<open>Properties of the transcript writing\<close>

lemma write_words_nil: "write_words fmt n [] = Inr ''[]''"
  by (simp add: write_words_def)

lemma write_words_fault:
  assumes "words \<noteq> []" and "length words < n" and "n < 2 ^ 31"
  shows "write_words fmt n words = Inl (OutOfRange (n - 1))"
proof -
  obtain w rest where w: "words = w # rest"
    using assms(1) by (cases words) auto
  have "to_size_t (int n - 1) = n - 1"
    using assms(2,3) by (intro to_size_t_pred) auto
  moreover have "\<not> n - 1 < length words"
    using assms(2) by simp
  ultimately have "vec_at words (to_size_t (int n - 1)) = Inl (OutOfRange (n - 1))"
    by (simp add: vec_at_def)
  then show ?thesis
    unfolding write_words_def by (subst w) (simp add: Let_def)
qed

text \<open>
  Claim C3. The claim asks for a JSON array with separators between the words and
  none after the last. The program decides on the separator by comparing each word
  with \<open>words[n_segments - 1]\<close>; the segment at index 0 makes no word, so \<open>words\<close>
  has fewer than \<open>n_segments\<close> entries and the index is out of range. For every
  segment sequence (\<open>n_segments\<close> is an \<open>int\<close>) whose assembly succeeds: no word
  gives the text \<open>[]\<close>, and one word or more gives an out-of-range read at index
  \<open>n_segments - 1\<close> after the first word is printed.
\<close>

theorem output_transcription_separator_out_of_range:
  assumes "length segs < 2 ^ 31" and "assemble segs = Inr words"
  shows "output_transcription fmt True segs =
    (if words = [] then Inr (Some ''[]'') else Inl (OutOfRange (length segs - 1)))"
proof (cases "words = []")
  case True
  then show ?thesis
    using assms(2) by (simp add: output_transcription_def write_words_nil)
next
  case False
  have le: "length words \<le> length segs - 1"
    by (rule assemble_length [OF assms(2)])
  have "0 < length words" using False by simp
  then have "length words < length segs"
    using le by linarith
  from write_words_fault [OF False this assms(1)] show ?thesis
    using False assms(2) by (simp add: output_transcription_def)
qed

theorem output_transcription_separator_out_of_range_witness:
  "output_transcription (\<lambda>x. ''1'') True
     [\<lparr>seg_t0 = 0, seg_text = []\<rparr>, \<lparr>seg_t0 = 100, seg_text = '' Hello''\<rparr>] =
     Inl (OutOfRange 1)"
proof -
  have len: "length [\<lparr>seg_t0 = 0, seg_text = []\<rparr>, \<lparr>seg_t0 = 100, seg_text = '' Hello''\<rparr>] < 2 ^ 31"
    by simp
  have asm: "assemble [\<lparr>seg_t0 = 0, seg_text = []\<rparr>, \<lparr>seg_t0 = 100, seg_text = '' Hello''\<rparr>] =
      Inr [(''Hello'', 1)]"
    by (simp add: assemble_def hello_step1)
  from output_transcription_separator_out_of_range [OF len asm, of "\<lambda>x. ''1''"]
  show ?thesis by simp
qed

section \<open>Properties of the layout check and the output path\<close>

lemma path_filename_no_sep: "c \<in> set (path_filename p) \<Longrightarrow> \<not> is_sep c"
  unfolding path_filename_def by (auto dest: set_takeWhileD)

lemma path_stem_subset: "set (path_stem p) \<subseteq> set (path_filename p)"
  unfolding path_stem_def by (auto simp: Let_def dest: in_set_takeD)

lemma path_stem_no_sep: "c \<in> set (path_stem p) \<Longrightarrow> \<not> is_sep c"
  using path_stem_subset path_filename_no_sep by blast

lemma path_stem_filename_nonempty: "path_stem p \<noteq> [] \<Longrightarrow> path_filename p \<noteq> []"
  using path_stem_subset [of p] by (cases "path_stem p") auto

lemma path_filename_append_sep:
  assumes "\<forall>c\<in>set q. \<not> is_sep c"
  shows "path_filename (p @ ''/'' @ q) = q"
proof -
  have "takeWhile (\<lambda>c. \<not> is_sep c) (rev q @ CHR ''/'' # rev p) = rev q"
    using assms by (subst takeWhile_append2) (auto simp: is_sep_def)
  then show ?thesis
    unfolding path_filename_def by simp
qed

text \<open>The output path, once the check has passed.\<close>

lemma out_path_eq:
  assumes "layout_ok fname"
  shows "out_path fname =
    parent_path (parent_path fname) @ ''/transcriptions/'' @ path_stem fname @ ''-transcription.json''"
proof -
  let ?gp = "parent_path (parent_path fname)"
  have stem: "path_stem ?gp = ''data''"
    using assms by (simp add: layout_ok_def)
  then have fn: "path_filename ?gp \<noteq> []"
    using path_stem_filename_nonempty [of ?gp] by simp
  then have t: "path_append ?gp ''transcriptions'' = ?gp @ ''/transcriptions''"
    by (simp add: path_append_def is_sep_def)
  have "path_filename (?gp @ ''/'' @ ''transcriptions'') = ''transcriptions''"
    by (rule path_filename_append_sep) (simp add: is_sep_def)
  then have fn2: "path_filename (?gp @ ''/transcriptions'') \<noteq> []"
    by simp
  have "path_append (?gp @ ''/transcriptions'') (path_stem fname @ ''-transcription.json'') =
    (?gp @ ''/transcriptions'') @ ''/'' @ path_stem fname @ ''-transcription.json''"
  proof (cases "path_stem fname")
    case Nil
    then show ?thesis using fn2 by (simp add: path_append_def is_sep_def)
  next
    case (Cons c cs)
    then have "\<not> is_sep c" using path_stem_no_sep [of c fname] by simp
    then show ?thesis using fn2 Cons by (simp add: path_append_def)
  qed
  then show ?thesis
    by (simp add: out_path_def t)
qed

lemma layout_data: "layout_ok ''data/foo/bar.wav''"
  by (simp add: layout_ok_def parent_path_def path_stem_def path_filename_def is_sep_def)

lemma layout_other: "\<not> layout_ok ''other/foo/bar.wav''"
  by (simp add: layout_ok_def parent_path_def path_stem_def path_filename_def is_sep_def)

lemma layout_bak: "layout_ok ''data.bak/foo/bar.wav''"
  by (simp add: layout_ok_def parent_path_def path_stem_def path_filename_def is_sep_def)

lemma layout_stdin: "\<not> layout_ok ''-''"
  by (simp add: layout_ok_def parent_path_def path_stem_def path_filename_def is_sep_def)

lemma grandparent_bak:
  "path_filename (parent_path (parent_path ''data.bak/foo/bar.wav'')) = ''data.bak''"
  by (simp add: parent_path_def path_filename_def is_sep_def)

lemma grandparent_data: "parent_path (parent_path ''data/foo/bar.wav'') = ''data''"
  by (simp add: parent_path_def is_sep_def)

lemma stem_bar: "path_stem ''data/foo/bar.wav'' = ''bar''"
  by (simp add: path_stem_def path_filename_def is_sep_def)

lemma out_path_bak:
  "out_path ''data.bak/foo/bar.wav'' = ''data.bak/transcriptions/bar-transcription.json''"
  by (simp add: out_path_eq [OF layout_bak])
    (simp add: parent_path_def path_stem_def path_filename_def is_sep_def)

text \<open>What the stages of \<open>process_file\<close> can return, and the stage that throws.\<close>

lemma open_wav_Inl:
  "open_wav env fname inp = Inl out \<Longrightarrow> out = Exit 4 \<or> out = Exit 5"
  unfolding open_wav_def by (auto split: if_splits option.splits prod.splits)

lemma check_format_Some:
  "check_format params wav = Some out \<Longrightarrow> out = Exit 6 \<or> out = Exit 8 \<or> out = Exit 9"
  unfolding check_format_def by (auto split: if_splits)

lemma process_file_no_layout:
  "\<not> layout_ok fname \<Longrightarrow>
   process_file env params tokens fname inp = Inl (Uncaught Invalid_argument)"
  by (simp add: process_file_def)

lemma process_file_layout_ok:
  assumes "layout_ok fname"
  shows "process_file env params tokens fname inp \<noteq> Inl (Uncaught Invalid_argument)"
proof (cases "open_wav env fname inp")
  case (Inl out)
  then show ?thesis
    using assms open_wav_Inl [OF Inl] by (auto simp: process_file_def)
next
  case (Inr opened)
  obtain wav wav_data inp' where o: "opened = (wav, wav_data, inp')"
    by (cases opened) auto
  show ?thesis
  proof (cases "check_format params wav")
    case (Some out)
    then show ?thesis
      using assms Inr o check_format_Some [OF Some] by (auto simp: process_file_def)
  next
    case None
    show ?thesis
    proof (cases "load_samples (diarize params) wav wav_data")
      case (Inl e)
      then show ?thesis
        using assms Inr o None by (simp add: process_file_def)
    next
      case (Inr loaded)
      then show ?thesis
        using assms \<open>open_wav env fname inp = Inr opened\<close> o None
        by (auto simp: process_file_def Let_def split: prod.splits sum.splits)
    qed
  qed
qed

lemma process_file_written:
  assumes "process_file env params tokens fname inp = Inr (Some (path, text), inp')"
  shows "path = out_path fname"
  using assms unfolding process_file_def
  by (auto simp: Let_def split: if_splits sum.splits option.splits prod.splits)

text \<open>The sample world, run on a file that passes the check.\<close>

lemma load_sample_wav:
  "load_samples d sample_wav [] = Inr ([1 / 4], if d then Some ([1 / 2], [0]) else None)"
  by (simp add: load_samples_def sample_wav_def frame_count_def read_pcm16_def
      downmix_sample_def stereo_sample_def vec_at_def)

lemma sample_run:
  assumes "layout_ok fname"
  shows "process_file sample_world params tokens fname inp =
     Inr (Some (out_path fname, ''[]''), inp)"
proof -
  have ne: "fname \<noteq> ''-''"
    using assms layout_stdin by auto
  have o: "open_wav sample_world fname inp = Inr (sample_wav, [], inp)"
    using ne by (simp add: open_wav_def sample_world_def)
  have c: "check_format params sample_wav = None"
    by (simp add: check_format_def sample_wav_def WHISPER_SAMPLE_RATE_def)
  have out: "output_transcription (print_double sample_world)
      (ofstream_is_open sample_world (out_path fname)) [\<lparr>seg_t0 = 0, seg_text = []\<rparr>] =
        Inr (Some ''[]'')"
    by (simp add: output_transcription_def sample_world_def assemble_def write_words_def)
  have w: "whisper_full_parallel sample_world wp s n = (0, [\<lparr>seg_t0 = 0, seg_text = []\<rparr>])"
    for wp s n
    by (simp add: sample_world_def)
  show ?thesis
    using assms by (simp add: process_file_def o c load_sample_wav w out)
qed

text \<open>
  Claim C4, amended. A file is processed if and only if the stem of its
  grandparent directory (the last component without its last extension) is
  \<open>data\<close>; otherwise \<open>std::invalid_argument\<close> is thrown, whatever the WAV library
  and the engine would do, and the run ends there. When the check passes, the
  transcript's path is the grandparent, then \<open>/transcriptions/\<close>, then the stem
  of the input and \<open>-transcription.json\<close>, and a transcript that is written is
  written there.
\<close>

theorem layout_check_and_out_path:
  "(process_file env params tokens fname inp = Inl (Uncaught Invalid_argument)) =
     (path_stem (parent_path (parent_path fname)) \<noteq> ''data'') \<and>
   (path_stem (parent_path (parent_path fname)) \<noteq> ''data'' \<longrightarrow>
      run_files env params tokens (fname # rest) inp = Uncaught Invalid_argument) \<and>
   (path_stem (parent_path (parent_path fname)) = ''data'' \<longrightarrow>
      out_path fname =
        parent_path (parent_path fname) @ ''/transcriptions/'' @ path_stem fname @
          ''-transcription.json'') \<and>
   (process_file env params tokens fname inp = Inr (Some (path, text), inp') \<longrightarrow>
      path =
        parent_path (parent_path fname) @ ''/transcriptions/'' @ path_stem fname @
          ''-transcription.json'')"
proof (cases "layout_ok fname")
  case True
  have "path = out_path fname"
    if "process_file env params tokens fname inp = Inr (Some (path, text), inp')"
    using process_file_written [OF that] .
  then show ?thesis
    using True process_file_layout_ok [OF True, of env params tokens inp] out_path_eq [OF True]
    by (auto simp: layout_ok_def)
next
  case False
  then show ?thesis
    using process_file_no_layout [OF False, of env params tokens inp]
    by (auto simp: layout_ok_def)
qed

theorem layout_check_and_out_path_witness:
  "path_stem (parent_path (parent_path ''data/foo/bar.wav'')) = ''data'' \<and>
   out_path ''data/foo/bar.wav'' = ''data/transcriptions/bar-transcription.json'' \<and>
   process_file sample_world (default_params sample_world) [] ''data/foo/bar.wav'' [] =
     Inr (Some (''data/transcriptions/bar-transcription.json'', ''[]''), []) \<and>
   path_stem (parent_path (parent_path ''other/foo/bar.wav'')) \<noteq> ''data'' \<and>
   process_file sample_world (default_params sample_world) [] ''other/foo/bar.wav'' [] =
     Inl (Uncaught Invalid_argument) \<and>
   run_files sample_world (default_params sample_world) [] [''other/foo/bar.wav''] [] =
     Uncaught Invalid_argument"
proof -
  have d: "path_stem (parent_path (parent_path ''data/foo/bar.wav'')) = ''data''"
    using layout_data by (simp add: layout_ok_def)
  have o: "path_stem (parent_path (parent_path ''other/foo/bar.wav'')) \<noteq> ''data''"
    using layout_other by (simp add: layout_ok_def)
  have p: "out_path ''data/foo/bar.wav'' = ''data/transcriptions/bar-transcription.json''"
    using layout_check_and_out_path
      [of sample_world "default_params sample_world" "[]" "''data/foo/bar.wav''" "[]"] d
    by (simp add: grandparent_data stem_bar)
  have r: "process_file sample_world (default_params sample_world) [] ''data/foo/bar.wav'' [] =
     Inr (Some (''data/transcriptions/bar-transcription.json'', ''[]''), [])"
    using sample_run [OF layout_data] p by simp
  from layout_check_and_out_path
    [of sample_world "default_params sample_world" "[]" "''other/foo/bar.wav''" "[]" "[]"] o
  have "process_file sample_world (default_params sample_world) [] ''other/foo/bar.wav'' [] =
     Inl (Uncaught Invalid_argument)"
    and "run_files sample_world (default_params sample_world) [] [''other/foo/bar.wav''] [] =
     Uncaught Invalid_argument"
    by blast+
  with d o p r show ?thesis by blast
qed

text \<open>
  The claim as it was stated fails twice. A grandparent named \<open>data.bak\<close> is not
  the name \<open>data\<close>, and the file is processed all the same; and the transcript of
  \<open>data/foo/bar.wav\<close> goes to \<open>data/transcriptions\<close>, not to
  \<open>data/foo/transcriptions\<close>.
\<close>

theorem layout_check_counterexample:
  "path_filename (parent_path (parent_path ''data.bak/foo/bar.wav'')) = ''data.bak'' \<and>
   ''data.bak'' \<noteq> ''data'' \<and>
   process_file sample_world (default_params sample_world) [] ''data.bak/foo/bar.wav'' [] =
     Inr (Some (''data.bak/transcriptions/bar-transcription.json'', ''[]''), []) \<and>
   process_file sample_world (default_params sample_world) [] ''data/foo/bar.wav'' [] =
     Inr (Some (''data/transcriptions/bar-transcription.json'', ''[]''), []) \<and>
   ''data/transcriptions/bar-transcription.json'' \<noteq>
     ''data/foo/transcriptions/bar-transcription.json''"
proof -
  have p: "out_path ''data/foo/bar.wav'' = ''data/transcriptions/bar-transcription.json''"
    by (simp add: out_path_eq [OF layout_data] grandparent_data stem_bar)
  show ?thesis
    using sample_run [OF layout_bak] sample_run [OF layout_data]
    by (simp add: grandparent_bak out_path_bak p)
qed

section \<open>Properties of the audio loading\<close>

lemma for_each_map:
  "(\<And>i. i \<in> set is \<Longrightarrow> f i = Inr (g i)) \<Longrightarrow> for_each f is = Inr (map g is)"
  by (induction "is") simp_all

lemma for_each_Inr:
  "for_each f is = Inr xs \<Longrightarrow> length xs = length is \<and> (\<forall>k<length is. f (is ! k) = Inr (xs ! k))"
proof (induction "is" arbitrary: xs)
  case Nil
  then show ?case by simp
next
  case (Cons i "is")
  from Cons.prems obtain x xs' where x: "f i = Inr x" and r: "for_each f is = Inr xs'"
    and xs: "xs = x # xs'"
    by (auto split: sum.splits)
  from Cons.IH [OF r] x xs show ?case
    by (auto simp: nth_Cons split: nat.splits)
qed

lemma length_read_pcm16: "length (read_pcm16 wav n) = n * channels wav"
proof -
  let ?fr = "min n (length (pcm_s16 wav) div channels wav)"
  have "length (pcm_s16 wav) div channels wav * channels wav \<le> length (pcm_s16 wav)"
    by simp
  moreover have "?fr * channels wav \<le> length (pcm_s16 wav) div channels wav * channels wav"
    by (rule mult_le_mono1) simp
  ultimately have "?fr * channels wav \<le> length (pcm_s16 wav)"
    by (rule order_trans [rotated])
  moreover have "?fr * channels wav \<le> n * channels wav"
    by simp
  ultimately show ?thesis
    by (simp add: read_pcm16_def Let_def)
qed

lemma mono_sample_ok:
  "i < length pcm \<Longrightarrow> mono_sample pcm i = Inr (real_of_int (sint (pcm ! i)) / 32768)"
  by (simp add: mono_sample_def vec_at_def)

lemma downmix_sample_ok:
  "2 * i + 1 < length pcm \<Longrightarrow>
   downmix_sample pcm i = Inr (real_of_int (sint (pcm ! (2 * i)) + sint (pcm ! (2 * i + 1))) / 65536)"
  by (simp add: downmix_sample_def vec_at_def)

lemma stereo_sample_ok:
  "2 * i + 1 < length pcm \<Longrightarrow>
   stereo_sample pcm i =
     Inr (real_of_int (sint (pcm ! (2 * i))) / 32768, real_of_int (sint (pcm ! (2 * i + 1))) / 32768)"
  by (simp add: stereo_sample_def vec_at_def)

lemma sint16_bounds: "- 32768 \<le> sint (a :: 16 word) \<and> sint a \<le> 32767"
  using sint_ge [of a] sint_lt [of a] by simp

lemma sample16_bounds:
  "- 1 \<le> real_of_int (sint (a :: 16 word)) / 32768 \<and> real_of_int (sint a) / 32768 \<le> 1"
proof -
  have "real_of_int (- 32768) \<le> real_of_int (sint a)"
    using sint16_bounds [of a] by (simp only: of_int_le_iff)
  moreover have "real_of_int (sint a) \<le> real_of_int 32767"
    using sint16_bounds [of a] by (simp only: of_int_le_iff)
  ultimately show ?thesis by simp
qed

lemma sum16_bounds: "\<bar>sint (a :: 16 word) + sint (b :: 16 word)\<bar> \<le> 65536"
  using sint16_bounds [of a] sint16_bounds [of b] by linarith

lemma abs16_bounds: "\<bar>sint (a :: 16 word)\<bar> \<le> 32768"
  using sint16_bounds [of a] by linarith

lemma load_samples_mono:
  assumes "channels wav = 1"
  shows "load_samples False wav wav_data =
    Inr (map (\<lambda>i. real_of_int (sint (read_pcm16 wav (frame_count wav wav_data) ! i)) / 32768)
          [0..<frame_count wav wav_data], None)"
proof -
  let ?n = "frame_count wav wav_data"
  let ?pcm = "read_pcm16 wav ?n"
  have len: "length ?pcm = ?n"
    using assms by (simp add: length_read_pcm16)
  have "for_each (mono_sample ?pcm) [0..<?n] =
      Inr (map (\<lambda>i. real_of_int (sint (?pcm ! i)) / 32768) [0..<?n])"
    by (rule for_each_map) (simp add: mono_sample_ok len)
  then show ?thesis
    using assms by (simp add: load_samples_def Let_def)
qed

lemma load_samples_stereo:
  assumes "channels wav = 2"
  shows "load_samples d wav wav_data =
    Inr (map (\<lambda>i. real_of_int (sint (read_pcm16 wav (frame_count wav wav_data) ! (2 * i)) +
                 sint (read_pcm16 wav (frame_count wav wav_data) ! (2 * i + 1))) / 65536)
          [0..<frame_count wav wav_data],
         if d then
           Some (map (\<lambda>i. real_of_int (sint (read_pcm16 wav (frame_count wav wav_data) ! (2 * i))) / 32768)
                   [0..<frame_count wav wav_data],
                 map (\<lambda>i. real_of_int (sint (read_pcm16 wav (frame_count wav wav_data) ! (2 * i + 1))) / 32768)
                   [0..<frame_count wav wav_data])
         else None)"
proof -
  let ?n = "frame_count wav wav_data"
  let ?pcm = "read_pcm16 wav ?n"
  have len: "length ?pcm = 2 * ?n"
    using assms by (simp add: length_read_pcm16)
  have m: "for_each (downmix_sample ?pcm) [0..<?n] =
      Inr (map (\<lambda>i. real_of_int (sint (?pcm ! (2 * i)) + sint (?pcm ! (2 * i + 1))) / 65536) [0..<?n])"
    by (rule for_each_map) (simp add: downmix_sample_ok len)
  have s: "for_each (stereo_sample ?pcm) [0..<?n] =
      Inr (map (\<lambda>i. (real_of_int (sint (?pcm ! (2 * i))) / 32768,
                       real_of_int (sint (?pcm ! (2 * i + 1))) / 32768)) [0..<?n])"
    by (rule for_each_map) (simp add: stereo_sample_ok len)
  show ?thesis
    using assms by (simp add: load_samples_def Let_def m s comp_def)
qed

lemma load_samples_mono_partial:
  assumes "channels wav = 1" and "load_samples d wav wav_data = Inr (pcmf32, pcmf32s)"
  shows "pcmf32 = map (\<lambda>i. real_of_int (sint (read_pcm16 wav (frame_count wav wav_data) ! i)) / 32768)
          [0..<frame_count wav wav_data]"
proof -
  let ?n = "frame_count wav wav_data"
  let ?pcm = "read_pcm16 wav ?n"
  have len: "length ?pcm = ?n"
    using assms by (simp add: length_read_pcm16)
  have "for_each (mono_sample ?pcm) [0..<?n] =
      Inr (map (\<lambda>i. real_of_int (sint (?pcm ! i)) / 32768) [0..<?n])"
    by (rule for_each_map) (simp add: mono_sample_ok len)
  then show ?thesis
    using assms by (auto simp: load_samples_def Let_def split: sum.splits if_splits)
qed

text \<open>
  Claim C5. Let \<open>n\<close> be the frame count and \<open>pcm\<close> the decoded 16-bit buffer.
  With one channel, the mono buffer holds \<open>pcm[i] / 32768\<close>, which lies between
  -1 and 1, for every \<open>i < n\<close> (the loading succeeds when diarization is off).
  With two channels the loading succeeds, the mono buffer holds
  \<open>(pcm[2i] + pcm[2i+1]) / 65536\<close>, and with diarization the two channel buffers
  hold \<open>pcm[2i] / 32768\<close> and \<open>pcm[2i+1] / 32768\<close>. There is a stereo input whose
  mono buffer differs from both channel buffers.
\<close>

theorem load_samples_values:
  "(let n = frame_count wav wav_data; pcm = read_pcm16 wav n in
    (channels wav = 1 \<longrightarrow>
       (\<exists>pcmf32. load_samples False wav wav_data = Inr (pcmf32, None)) \<and>
       (load_samples d wav wav_data = Inr (buf, bufs) \<longrightarrow>
          (\<forall>i<n. buf ! i = real_of_int (sint (pcm ! i)) / 32768 \<and>
                 - 1 \<le> buf ! i \<and> buf ! i \<le> 1))) \<and>
    (channels wav = 2 \<longrightarrow>
       (\<exists>pcmf32 pcmf32s.
          load_samples d wav wav_data = Inr (pcmf32, pcmf32s) \<and>
          (\<forall>i<n. pcmf32 ! i =
             real_of_int (sint (pcm ! (2 * i)) + sint (pcm ! (2 * i + 1))) / 65536) \<and>
          (d \<longrightarrow>
             (\<exists>l r. pcmf32s = Some (l, r) \<and>
                (\<forall>i<n. l ! i = real_of_int (sint (pcm ! (2 * i))) / 32768 \<and>
                       r ! i = real_of_int (sint (pcm ! (2 * i + 1))) / 32768)))))) \<and>
   (\<exists>stereo m l r.
      channels stereo = 2 \<and> load_samples True stereo [] = Inr (m, Some (l, r)) \<and>
      m \<noteq> l \<and> m \<noteq> r)"
proof -
  let ?n = "frame_count wav wav_data"
  let ?pcm = "read_pcm16 wav ?n"
  have one_ok: "\<exists>pcmf32. load_samples False wav wav_data = Inr (pcmf32, None)"
    if "channels wav = 1"
    using load_samples_mono [OF that] by blast
  have one: "buf ! i = real_of_int (sint (?pcm ! i)) / 32768 \<and> - 1 \<le> buf ! i \<and> buf ! i \<le> 1"
    if c: "channels wav = 1" and l: "load_samples d wav wav_data = Inr (buf, bufs)" and i: "i < ?n"
    for i
  proof -
    have "buf ! i = real_of_int (sint (?pcm ! i)) / 32768"
      using load_samples_mono_partial [OF c l] i by simp
    then show ?thesis
      using sample16_bounds [of "?pcm ! i"] by (simp only:)
  qed
  have two: "\<exists>pcmf32 pcmf32s.
      load_samples d wav wav_data = Inr (pcmf32, pcmf32s) \<and>
      (\<forall>i<?n. pcmf32 ! i =
         real_of_int (sint (?pcm ! (2 * i)) + sint (?pcm ! (2 * i + 1))) / 65536) \<and>
      (d \<longrightarrow>
         (\<exists>l r. pcmf32s = Some (l, r) \<and>
            (\<forall>i<?n. l ! i = real_of_int (sint (?pcm ! (2 * i))) / 32768 \<and>
                   r ! i = real_of_int (sint (?pcm ! (2 * i + 1))) / 32768)))"
    if "channels wav = 2"
    by (subst load_samples_stereo [OF that]) simp
  have ex: "\<exists>stereo m l r.
      channels stereo = 2 \<and> load_samples True stereo [] = Inr (m, Some (l, r)) \<and> m \<noteq> l \<and> m \<noteq> r"
  proof (intro exI conjI)
    show "channels sample_wav = 2" by (simp add: sample_wav_def)
    show "load_samples True sample_wav [] = Inr ([1 / 4], Some ([1 / 2], [0]))"
      by (simp add: load_sample_wav)
    show "[1 / 4 :: real] \<noteq> [1 / 2]" by simp
    show "[1 / 4 :: real] \<noteq> [0]" by simp
  qed
  show ?thesis
    unfolding Let_def using one_ok one two ex by blast
qed

theorem load_samples_values_witness:
  "channels sample_mono_wav = 1 \<and>
   load_samples False sample_mono_wav [] = Inr ([1 / 2, - 1, 0], None) \<and>
   channels sample_wav = 2 \<and>
   (\<exists>pcmf32 l r.
      load_samples True sample_wav [] = Inr (pcmf32, Some (l, r)) \<and>
      pcmf32 ! 0 = 1 / 4 \<and> l ! 0 = 1 / 2 \<and> r ! 0 = 0)"
proof -
  have c1: "channels sample_mono_wav = 1" by (simp add: sample_mono_wav_def)
  have c2: "channels sample_wav = 2" by (simp add: sample_wav_def)
  have n1: "frame_count sample_mono_wav [] = 3"
    by (simp add: frame_count_def sample_mono_wav_def)
  have p1: "read_pcm16 sample_mono_wav 3 = [16384, - 32768, 0]"
    by (simp add: read_pcm16_def sample_mono_wav_def)
  have l1: "load_samples False sample_mono_wav [] = Inr ([1 / 2, - 1, 0], None)"
    by (simp add: load_samples_mono [OF c1] n1 p1 upt_rec)
  have n2: "frame_count sample_wav [] = 1"
    by (simp add: frame_count_def sample_wav_def)
  have p2: "read_pcm16 sample_wav 1 = [16384, 0]"
    by (simp add: read_pcm16_def sample_wav_def)
  from load_samples_values [of sample_wav "[]" True] c2
  obtain pcmf32 l r where
    "load_samples True sample_wav [] = Inr (pcmf32, Some (l, r)) \<and>
     pcmf32 ! 0 = 1 / 4 \<and> l ! 0 = 1 / 2 \<and> r ! 0 = 0"
    unfolding Let_def n2 p2 by auto
  with c1 c2 l1 show ?thesis by blast
qed

text \<open>
  Claim C9. For a stereo input loaded with diarization, the mono sample of every
  frame is the mean of the two channel samples, and the three values are integers
  of at most 17 bits over \<open>2^16\<close> or \<open>2^15\<close>: numbers a \<open>float\<close> holds exactly.
\<close>

theorem downmix_is_mean_of_channels:
  assumes "channels wav = 2"
  shows "\<exists>m l r.
    load_samples True wav wav_data = Inr (m, Some (l, r)) \<and>
    (\<forall>i<frame_count wav wav_data.
       m ! i = (l ! i + r ! i) / 2 \<and>
       (\<exists>k::int. \<bar>k\<bar> \<le> 65536 \<and> m ! i = real_of_int k / 65536) \<and>
       (\<exists>k::int. \<bar>k\<bar> \<le> 32768 \<and> l ! i = real_of_int k / 32768) \<and>
       (\<exists>k::int. \<bar>k\<bar> \<le> 32768 \<and> r ! i = real_of_int k / 32768))"
proof -
  let ?n = "frame_count wav wav_data"
  let ?pcm = "read_pcm16 wav ?n"
  let ?a = "\<lambda>i. sint (?pcm ! (2 * i))"
  let ?b = "\<lambda>i. sint (?pcm ! (2 * i + 1))"
  let ?m = "map (\<lambda>i. real_of_int (?a i + ?b i) / 65536) [0..<?n]"
  let ?l = "map (\<lambda>i. real_of_int (?a i) / 32768) [0..<?n]"
  let ?r = "map (\<lambda>i. real_of_int (?b i) / 32768) [0..<?n]"
  have load: "load_samples True wav wav_data = Inr (?m, Some (?l, ?r))"
    by (simp add: load_samples_stereo [OF assms])
  have frame: "?m ! i = (?l ! i + ?r ! i) / 2 \<and>
       (\<exists>k::int. \<bar>k\<bar> \<le> 65536 \<and> ?m ! i = real_of_int k / 65536) \<and>
       (\<exists>k::int. \<bar>k\<bar> \<le> 32768 \<and> ?l ! i = real_of_int k / 32768) \<and>
       (\<exists>k::int. \<bar>k\<bar> \<le> 32768 \<and> ?r ! i = real_of_int k / 32768)"
    if i: "i < ?n" for i
  proof -
    have mean: "?m ! i = (?l ! i + ?r ! i) / 2"
      using i by (simp add: field_simps)
    have km: "\<bar>?a i + ?b i\<bar> \<le> 65536 \<and> ?m ! i = real_of_int (?a i + ?b i) / 65536"
      using i sum16_bounds [of "?pcm ! (2 * i)" "?pcm ! (2 * i + 1)"] by simp
    have kl: "\<bar>?a i\<bar> \<le> 32768 \<and> ?l ! i = real_of_int (?a i) / 32768"
      using i abs16_bounds [of "?pcm ! (2 * i)"] by simp
    have kr: "\<bar>?b i\<bar> \<le> 32768 \<and> ?r ! i = real_of_int (?b i) / 32768"
      using i abs16_bounds [of "?pcm ! (2 * i + 1)"] by simp
    from mean km kl kr show ?thesis by blast
  qed
  from load frame show ?thesis by blast
qed

theorem downmix_is_mean_of_channels_witness:
  "channels sample_wav = 2 \<and> frame_count sample_wav [] = 1 \<and>
   (\<exists>m l r. load_samples True sample_wav [] = Inr (m, Some (l, r)) \<and>
      m ! 0 = (l ! 0 + r ! 0) / 2)"
proof -
  have c: "channels sample_wav = 2" by (simp add: sample_wav_def)
  have n: "frame_count sample_wav [] = 1"
    by (simp add: frame_count_def sample_wav_def)
  from downmix_is_mean_of_channels [OF c, of "[]"] n
  have "\<exists>m l r. load_samples True sample_wav [] = Inr (m, Some (l, r)) \<and>
      m ! 0 = (l ! 0 + r ! 0) / 2"
    by fastforce
  with c n show ?thesis by blast
qed

text \<open>
  Claim C10. When the loading succeeds, the mono buffer has as many samples as
  the frame count; with diarization there are two channel buffers of that length
  too, whatever the number of channels, and without it there is none.
\<close>

theorem load_samples_lengths:
  assumes "load_samples d wav wav_data = Inr (pcmf32, pcmf32s)"
  shows "length pcmf32 = frame_count wav wav_data \<and>
     (if d then \<exists>l r. pcmf32s = Some (l, r) \<and> length l = frame_count wav wav_data \<and>
          length r = frame_count wav wav_data
      else pcmf32s = None)"
  using assms unfolding load_samples_def Let_def
  by (auto split: sum.splits if_splits dest: for_each_Inr)

theorem load_samples_lengths_witness:
  "load_samples True sample_wav [] = Inr ([1 / 4], Some ([1 / 2], [0])) \<and>
   frame_count sample_wav [] = 1 \<and>
   length [1 / 4 :: real] = 1 \<and> length [1 / 2 :: real] = 1 \<and> length [0 :: real] = 1"
proof -
  have l: "load_samples True sample_wav [] = Inr ([1 / 4], Some ([1 / 2], [0]))"
    by (simp add: load_sample_wav)
  from load_samples_lengths [OF l] l show ?thesis by simp
qed

section \<open>Properties of the request\<close>

text \<open>
  Claim C7. In the request \<open>main\<close> builds: token-level timestamps are on exactly
  when word-level timestamp output is requested or the configured maximal segment
  length is positive; the maximal segment length is 60 when word-level timestamp
  output is requested and the configured length is zero, and the configured
  length otherwise; the maximal number of text-context tokens is the configured
  one when that is not negative, and the engine's default otherwise.
\<close>

theorem request_configuration:
  "token_timestamps (make_wparams defaults params tokens) =
     (output_wts params \<or> 0 < max_len params) \<and>
   whisper_full_params.max_len (make_wparams defaults params tokens) =
     (if output_wts params \<and> max_len params = 0 then 60 else max_len params) \<and>
   n_max_text_ctx (make_wparams defaults params tokens) =
     (if 0 \<le> max_context params then max_context params else n_max_text_ctx defaults)"
  by (simp add: make_wparams_def)

theorem request_configuration_witness:
  "token_timestamps
     (make_wparams sample_defaults ((default_params sample_world)\<lparr>output_wts := True\<rparr>) []) \<and>
   whisper_full_params.max_len
     (make_wparams sample_defaults ((default_params sample_world)\<lparr>output_wts := True\<rparr>) []) = 60 \<and>
   n_max_text_ctx
     (make_wparams sample_defaults ((default_params sample_world)\<lparr>output_wts := True\<rparr>) []) = 16384 \<and>
   \<not> token_timestamps (make_wparams sample_defaults (default_params sample_world) []) \<and>
   n_max_text_ctx
     (make_wparams sample_defaults ((default_params sample_world)\<lparr>max_context := 0\<rparr>) []) = 0"
  using
    request_configuration
      [of sample_defaults "(default_params sample_world)\<lparr>output_wts := True\<rparr>" "[]"]
    request_configuration [of sample_defaults "default_params sample_world" "[]"]
    request_configuration
      [of sample_defaults "(default_params sample_world)\<lparr>max_context := 0\<rparr>" "[]"]
  by (simp add: default_params_def sample_defaults_def)

section \<open>Properties of the argument parser and of standard input\<close>

text \<open>An option the parser does not know ends the process with status 0.\<close>

lemma parse_arg_unknown:
  assumes "arg = CHR ''-'' # cs" and "arg \<notin> set known_options"
  shows "parse_arg env arg nxt params = Inl (Exit 0)"
proof -
  have "(case arg of c # _ \<Rightarrow> c \<noteq> CHR ''-'' | [] \<Rightarrow> True) = False"
    using assms(1) by simp
  moreover have "\<forall>k\<in>set known_options. arg \<noteq> k"
    using assms(2) by blast
  ultimately show ?thesis
    unfolding parse_arg_def known_options_def
    by (simp only: list.set ball_simps if_False HOL.simp_thms)
qed

lemma dash_unknown: "''-'' \<notin> set known_options"
  by (simp add: known_options_def)

lemma parse_arg_dash: "parse_arg env ''-'' nxt params = Inl (Exit 0)"
  by (rule parse_arg_unknown [of _ "[]"]) (simp_all only: dash_unknown not_False_eq_True)

lemma parse_arg_positional:
  assumes "case arg of c # _ \<Rightarrow> c \<noteq> CHR ''-'' | [] \<Rightarrow> True"
  shows "parse_arg env arg nxt params =
    Inr (params\<lparr>fname_inp := fname_inp params @ [arg]\<rparr>, False)"
  using assms unfolding parse_arg_def by (simp only: if_True)

lemma parse_arg_f:
  "parse_arg env ''-f'' (Some v) params =
     Inr (params\<lparr>fname_inp := fname_inp params @ [v]\<rparr>, True)"
  by (simp add: parse_arg_def string_value_def)

lemma parse_arg_file:
  "parse_arg env ''--file'' (Some v) params =
     Inr (params\<lparr>fname_inp := fname_inp params @ [v]\<rparr>, True)"
  by (simp add: parse_arg_def string_value_def)

lemma parse_arg_threads:
  "parse_arg env ''-t'' (Some v) params =
    (case stoi v of
       Inl e \<Rightarrow> Inl (Uncaught e)
     | Inr n \<Rightarrow> Inr (params\<lparr>n_threads := n\<rparr>, True))"
  by (simp add: parse_arg_def int_value_def)

lemma parse_arg_language:
  "parse_arg env ''-l'' (Some v) params = Inr (params\<lparr>language := v\<rparr>, True)"
  by (simp add: parse_arg_def string_value_def)

text \<open>The loop on standard input takes all of it.\<close>

lemma read_stdin_all: "read_stdin wav_data inp = (wav_data @ inp, [])"
proof (induction wav_data inp rule: read_stdin.induct)
  case (1 wav_data inp)
  show ?case
  proof (cases "take 1024 inp = []")
    case True
    then have "inp = []" by (cases inp) auto
    then show ?thesis
      by (subst read_stdin.simps) (simp add: fread_def)
  next
    case False
    then have "read_stdin (wav_data @ take 1024 inp) (drop 1024 inp) =
        ((wav_data @ take 1024 inp) @ drop 1024 inp, [])"
      using "1.IH" [of "(take 1024 inp, drop 1024 inp)" "take 1024 inp" "drop 1024 inp"
          "length (take 1024 inp)"]
      by (simp add: fread_def)
    then show ?thesis
      using False by (subst read_stdin.simps) (simp add: fread_def Let_def)
  qed
qed

lemma open_wav_stdin:
  "open_wav env ''-'' inp =
    (case drwav_init_memory env inp of
       None \<Rightarrow> Inl (Exit 4)
     | Some wav \<Rightarrow> Inr (wav, inp, []))"
  by (simp add: open_wav_def read_stdin_all)

text \<open>The sample world's checks before the loop over the files.\<close>

lemma sample_main_with:
  assumes "fname_inp params \<noteq> []" and "language params = ''en''" and "prompt params = []"
  shows "main_with (sample_world\<lparr>stdin := inp\<rparr>) params =
    run_files (sample_world\<lparr>stdin := inp\<rparr>) params [] (fname_inp params) inp"
  using assms by (simp add: main_with_def tokenize_prompt_def sample_world_def)

text \<open>
  Claim C8, amended. Given through \<open>-f\<close> or \<open>--file\<close>, the path \<open>-\<close> is taken as
  an input file; given as a positional argument, it is an unknown option, and the
  process exits with status 0. For the name \<open>-\<close> the loader reads standard input
  to its end into \<open>wav_data\<close> and opens those bytes instead of a named file. In a
  run the loader is not reached with that name: the path \<open>-\<close> has an empty
  grandparent, and the layout check throws.
\<close>

theorem dash_input:
  "whisper_params_parse env (''-f'' # ''-'' # args) params =
     whisper_params_parse env args (params\<lparr>fname_inp := fname_inp params @ [''-'']\<rparr>) \<and>
   whisper_params_parse env (''--file'' # ''-'' # args) params =
     whisper_params_parse env args (params\<lparr>fname_inp := fname_inp params @ [''-'']\<rparr>) \<and>
   whisper_params_parse env (''-'' # args) params = Inl (Exit 0) \<and>
   read_stdin [] inp = (inp, []) \<and>
   open_wav env ''-'' inp =
     (case drwav_init_memory env inp of
        None \<Rightarrow> Inl (Exit 4)
      | Some wav \<Rightarrow> Inr (wav, inp, [])) \<and>
   process_file env params tokens ''-'' inp = Inl (Uncaught Invalid_argument)"
proof (intro conjI)
  show "whisper_params_parse env (''-f'' # ''-'' # args) params =
     whisper_params_parse env args (params\<lparr>fname_inp := fname_inp params @ [''-'']\<rparr>)"
    by (subst whisper_params_parse.simps) (simp add: parse_arg_f)
  show "whisper_params_parse env (''--file'' # ''-'' # args) params =
     whisper_params_parse env args (params\<lparr>fname_inp := fname_inp params @ [''-'']\<rparr>)"
    by (subst whisper_params_parse.simps) (simp add: parse_arg_file)
  show "whisper_params_parse env (''-'' # args) params = Inl (Exit 0)"
    by (subst whisper_params_parse.simps) (simp add: parse_arg_dash)
  show "read_stdin [] inp = (inp, [])"
    using read_stdin_all [of "[]" inp] by simp
  show "open_wav env ''-'' inp =
     (case drwav_init_memory env inp of
        None \<Rightarrow> Inl (Exit 4)
      | Some wav \<Rightarrow> Inr (wav, inp, []))"
    by (rule open_wav_stdin)
  show "process_file env params tokens ''-'' inp = Inl (Uncaught Invalid_argument)"
    by (rule process_file_no_layout [OF layout_stdin])
qed

theorem dash_input_witness:
  "main (sample_world\<lparr>stdin := [82, 73, 70, 70]\<rparr>) [''transcribe'', ''--file'', ''-''] =
     Uncaught Invalid_argument \<and>
   open_wav sample_world ''-'' [82, 73, 70, 70] = Inr (sample_wav, [82, 73, 70, 70], [])"
proof -
  let ?env = "sample_world\<lparr>stdin := [82, 73, 70, 70]\<rparr>"
  let ?params = "(default_params ?env)\<lparr>fname_inp := fname_inp (default_params ?env) @ [''-'']\<rparr>"
  note d = dash_input [of ?env "[]" "default_params ?env" "[82, 73, 70, 70]" "[]"]
  have parse: "whisper_params_parse ?env [''--file'', ''-''] (default_params ?env) = Inr ?params"
    using d by simp
  have "main_with ?env ?params = run_files ?env ?params [] (fname_inp ?params) [82, 73, 70, 70]"
    by (rule sample_main_with) (simp_all add: default_params_def)
  also have "\<dots> = Uncaught Invalid_argument"
    using dash_input [of ?env "[]" ?params "[82, 73, 70, 70]" "[]"]
    by (simp add: default_params_def)
  finally have run: "main ?env [''transcribe'', ''--file'', ''-''] = Uncaught Invalid_argument"
    using parse by (simp add: main_def)
  have "open_wav sample_world ''-'' [82, 73, 70, 70] = Inr (sample_wav, [82, 73, 70, 70], [])"
    using dash_input [of sample_world "[]" "default_params sample_world" "[82, 73, 70, 70]" "[]"]
    by (simp add: sample_world_def)
  with run show ?thesis by blast
qed

text \<open>
  The claim as it was stated fails on both routes: the positional \<open>-\<close> is not
  accepted by the parser, and with \<open>-f -\<close> the run ends in the layout check, with
  standard input unread.
\<close>

theorem dash_input_counterexample:
  "whisper_params_parse sample_world [''-''] (default_params sample_world) = Inl (Exit 0) \<and>
   main (sample_world\<lparr>stdin := [82, 73, 70, 70]\<rparr>) [''transcribe'', ''-f'', ''-''] =
     Uncaught Invalid_argument"
proof -
  let ?env = "sample_world\<lparr>stdin := [82, 73, 70, 70]\<rparr>"
  let ?params = "(default_params ?env)\<lparr>fname_inp := fname_inp (default_params ?env) @ [''-'']\<rparr>"
  have p1: "whisper_params_parse sample_world [''-''] (default_params sample_world) = Inl (Exit 0)"
    by (subst whisper_params_parse.simps) (simp add: parse_arg_dash)
  have parse: "whisper_params_parse ?env [''-f'', ''-''] (default_params ?env) = Inr ?params"
    by (subst whisper_params_parse.simps) (simp add: parse_arg_f)
  have "main_with ?env ?params = run_files ?env ?params [] (fname_inp ?params) [82, 73, 70, 70]"
    by (rule sample_main_with) (simp_all add: default_params_def)
  also have "\<dots> = Uncaught Invalid_argument"
    by (simp add: default_params_def process_file_no_layout [OF layout_stdin])
  finally have "main ?env [''transcribe'', ''-f'', ''-''] = Uncaught Invalid_argument"
    using parse by (simp add: main_def)
  with p1 show ?thesis by blast
qed

section \<open>Properties of the exit status\<close>

lemma layout_ok_not_stdin: "layout_ok fname \<Longrightarrow> fname \<noteq> ''-''"
  using layout_stdin by auto

lemma run_files_open_failure:
  assumes "layout_ok fname" and "drwav_init_file env fname = None"
  shows "run_files env params tokens (fname # rest) inp = Exit 5"
proof -
  have "open_wav env fname inp = Inl (Exit 5)"
    using layout_ok_not_stdin [OF assms(1)] assms(2) by (simp add: open_wav_def)
  then have "process_file env params tokens fname inp = Inl (Exit 5)"
    using assms(1) by (simp add: process_file_def)
  then show ?thesis by simp
qed

lemma open_wav_file:
  assumes "layout_ok fname" and "drwav_init_file env fname = Some wav"
  shows "open_wav env fname inp = Inr (wav, [], inp)"
  using layout_ok_not_stdin [OF assms(1)] assms(2) by (simp add: open_wav_def)

lemma run_files_format:
  assumes "layout_ok fname" and "drwav_init_file env fname = Some wav"
    and "check_format params wav = Some out"
  shows "run_files env params tokens (fname # rest) inp = out"
proof -
  have "process_file env params tokens fname inp = Inl out"
    using assms(1,3) by (simp add: process_file_def open_wav_file [OF assms(1,2)])
  then show ?thesis by simp
qed

lemma run_files_inference:
  assumes "layout_ok fname" and "drwav_init_file env fname = Some wav"
    and "check_format params wav = None"
    and "load_samples (diarize params) wav [] = Inr (samples, chans)"
    and "fst (whisper_full_parallel env
           (make_wparams (whisper_full_default_params env) params tokens) samples
           (n_processors params)) \<noteq> 0"
  shows "run_files env params tokens (fname # rest) inp = Exit 10"
proof -
  have "process_file env params tokens fname inp = Inl (Exit 10)"
    using assms(1,3,4,5)
    by (auto simp: process_file_def open_wav_file [OF assms(1,2)] Let_def split: prod.splits)
  then show ?thesis by simp
qed

lemma parse_unknown:
  assumes "arg = CHR ''-'' # cs" and "arg \<notin> set known_options"
  shows "whisper_params_parse env (arg # args) params = Inl (Exit 0)"
  by (subst whisper_params_parse.simps) (simp add: parse_arg_unknown [OF assms])

text \<open>A value that is no number, for each option that reads one.\<close>

lemma parse_arg_stoi:
  "parse_arg env ''-t'' (Some v) params =
    (case stoi v of
       Inl e \<Rightarrow> Inl (Uncaught e)
     | Inr n \<Rightarrow> Inr (params\<lparr>n_threads := n\<rparr>, True))"
  "parse_arg env ''--threads'' (Some v) params =
    (case stoi v of
       Inl e \<Rightarrow> Inl (Uncaught e)
     | Inr n \<Rightarrow> Inr (params\<lparr>n_threads := n\<rparr>, True))"
  "parse_arg env ''-p'' (Some v) params =
    (case stoi v of
       Inl e \<Rightarrow> Inl (Uncaught e)
     | Inr n \<Rightarrow> Inr (params\<lparr>n_processors := n\<rparr>, True))"
  "parse_arg env ''--processors'' (Some v) params =
    (case stoi v of
       Inl e \<Rightarrow> Inl (Uncaught e)
     | Inr n \<Rightarrow> Inr (params\<lparr>n_processors := n\<rparr>, True))"
  "parse_arg env ''-ot'' (Some v) params =
    (case stoi v of
       Inl e \<Rightarrow> Inl (Uncaught e)
     | Inr n \<Rightarrow> Inr (params\<lparr>offset_t_ms := n\<rparr>, True))"
  "parse_arg env ''--offset-t'' (Some v) params =
    (case stoi v of
       Inl e \<Rightarrow> Inl (Uncaught e)
     | Inr n \<Rightarrow> Inr (params\<lparr>offset_t_ms := n\<rparr>, True))"
  "parse_arg env ''-on'' (Some v) params =
    (case stoi v of
       Inl e \<Rightarrow> Inl (Uncaught e)
     | Inr n \<Rightarrow> Inr (params\<lparr>offset_n := n\<rparr>, True))"
  "parse_arg env ''--offset-n'' (Some v) params =
    (case stoi v of
       Inl e \<Rightarrow> Inl (Uncaught e)
     | Inr n \<Rightarrow> Inr (params\<lparr>offset_n := n\<rparr>, True))"
  "parse_arg env ''-d'' (Some v) params =
    (case stoi v of
       Inl e \<Rightarrow> Inl (Uncaught e)
     | Inr n \<Rightarrow> Inr (params\<lparr>duration_ms := n\<rparr>, True))"
  "parse_arg env ''--duration'' (Some v) params =
    (case stoi v of
       Inl e \<Rightarrow> Inl (Uncaught e)
     | Inr n \<Rightarrow> Inr (params\<lparr>duration_ms := n\<rparr>, True))"
  "parse_arg env ''-mc'' (Some v) params =
    (case stoi v of
       Inl e \<Rightarrow> Inl (Uncaught e)
     | Inr n \<Rightarrow> Inr (params\<lparr>max_context := n\<rparr>, True))"
  "parse_arg env ''--max-context'' (Some v) params =
    (case stoi v of
       Inl e \<Rightarrow> Inl (Uncaught e)
     | Inr n \<Rightarrow> Inr (params\<lparr>max_context := n\<rparr>, True))"
  "parse_arg env ''-ml'' (Some v) params =
    (case stoi v of
       Inl e \<Rightarrow> Inl (Uncaught e)
     | Inr n \<Rightarrow> Inr (params\<lparr>max_len := n\<rparr>, True))"
  "parse_arg env ''--max-len'' (Some v) params =
    (case stoi v of
       Inl e \<Rightarrow> Inl (Uncaught e)
     | Inr n \<Rightarrow> Inr (params\<lparr>max_len := n\<rparr>, True))"
  by (simp_all add: parse_arg_def int_value_def)

lemma parse_arg_stof:
  "parse_arg env ''-wt'' (Some v) params =
    (case stof env v of
       Inl e \<Rightarrow> Inl (Uncaught e)
     | Inr x \<Rightarrow> Inr (params\<lparr>word_thold := x\<rparr>, True))"
  "parse_arg env ''--word-thold'' (Some v) params =
    (case stof env v of
       Inl e \<Rightarrow> Inl (Uncaught e)
     | Inr x \<Rightarrow> Inr (params\<lparr>word_thold := x\<rparr>, True))"
  by (simp_all add: parse_arg_def float_value_def)

lemma parse_arg_stoi_failure:
  assumes "stoi v = Inl e"
  shows "\<forall>opt\<in>set stoi_options. parse_arg env opt (Some v) params = Inl (Uncaught e)"
  unfolding stoi_options_def by (simp add: parse_arg_stoi assms)

lemma parse_arg_stof_failure:
  assumes "stof env v = Inl e"
  shows "\<forall>opt\<in>set stof_options. parse_arg env opt (Some v) params = Inl (Uncaught e)"
  unfolding stof_options_def by (simp add: parse_arg_stof assms)

lemma parse_numeric_failure:
  assumes "parse_arg env opt (Some v) params = Inl out"
  shows "whisper_params_parse env (opt # v # args) params = Inl out"
  by (subst whisper_params_parse.simps) (simp add: assms)

text \<open>
  Claim C6, amended. No input file ends the process with status 2, a failed
  initialisation of the engine with 3, a file that does not open as WAV with 5
  (4 for standard input in the loader), a channel count other than 1 and 2 with
  6, another sample rate with 8, another bit depth with 9, and a failed inference
  with 10. An unknown option and an unknown language print the usage and end the
  process with status 0; a value that is no number, for any of the seven options
  read by \<open>std::stoi\<close> and the one read by \<open>std::stof\<close>, under either name of
  the option, ends it with the exception of that function, uncaught. The status
  of a mono file under diarization is no part of this statement.
\<close>

theorem exit_codes:
  "(fname_inp params = [] \<longrightarrow> main_with env params = Exit 2) \<and>
   (fname_inp params \<noteq> [] \<and> language params \<noteq> ''auto'' \<and>
      whisper_lang_id env (language params) = - 1 \<longrightarrow>
      main_with env params = Exit 0) \<and>
   (fname_inp params \<noteq> [] \<and>
      \<not> (language params \<noteq> ''auto'' \<and> whisper_lang_id env (language params) = - 1) \<and>
      \<not> whisper_init_from_file env (model params) \<longrightarrow>
      main_with env params = Exit 3) \<and>
   (arg = CHR ''-'' # cs \<and> arg \<notin> set known_options \<longrightarrow>
      whisper_params_parse env (arg # args) params = Inl (Exit 0)) \<and>
   ((stoi v = Inl e \<longrightarrow>
       (\<forall>opt\<in>set stoi_options.
          whisper_params_parse env (opt # v # args) params = Inl (Uncaught e))) \<and>
    (stof env v = Inl ef \<longrightarrow>
       (\<forall>opt\<in>set stof_options.
          whisper_params_parse env (opt # v # args) params = Inl (Uncaught ef)))) \<and>
   (drwav_init_memory env inp = None \<longrightarrow> open_wav env ''-'' inp = Inl (Exit 4)) \<and>
   (layout_ok fname \<and> drwav_init_file env fname = None \<longrightarrow>
      run_files env params tokens (fname # rest) inp = Exit 5) \<and>
   (layout_ok fname \<and> drwav_init_file env fname = Some wav \<longrightarrow>
      (channels wav \<noteq> 1 \<and> channels wav \<noteq> 2 \<longrightarrow>
         run_files env params tokens (fname # rest) inp = Exit 6) \<and>
      ((channels wav = 1 \<or> channels wav = 2) \<and>
       \<not> (diarize params \<and> channels wav \<noteq> 2 \<and> \<not> no_timestamps params) \<longrightarrow>
         (sampleRate wav \<noteq> WHISPER_SAMPLE_RATE \<longrightarrow>
            run_files env params tokens (fname # rest) inp = Exit 8) \<and>
         (sampleRate wav = WHISPER_SAMPLE_RATE \<and> bitsPerSample wav \<noteq> 16 \<longrightarrow>
            run_files env params tokens (fname # rest) inp = Exit 9) \<and>
         (sampleRate wav = WHISPER_SAMPLE_RATE \<and> bitsPerSample wav = 16 \<and>
          load_samples (diarize params) wav [] = Inr (samples, chans) \<and>
          fst (whisper_full_parallel env
                 (make_wparams (whisper_full_default_params env) params tokens) samples
                 (n_processors params)) \<noteq> 0 \<longrightarrow>
            run_files env params tokens (fname # rest) inp = Exit 10)))"
proof -
  have a: "fname_inp params = [] \<longrightarrow> main_with env params = Exit 2"
    by (simp add: main_with_def)
  have b: "fname_inp params \<noteq> [] \<and> language params \<noteq> ''auto'' \<and>
      whisper_lang_id env (language params) = - 1 \<longrightarrow> main_with env params = Exit 0"
    by (simp add: main_with_def)
  have c: "fname_inp params \<noteq> [] \<and>
      \<not> (language params \<noteq> ''auto'' \<and> whisper_lang_id env (language params) = - 1) \<and>
      \<not> whisper_init_from_file env (model params) \<longrightarrow> main_with env params = Exit 3"
    by (auto simp: main_with_def)
  have d: "arg = CHR ''-'' # cs \<and> arg \<notin> set known_options \<longrightarrow>
      whisper_params_parse env (arg # args) params = Inl (Exit 0)"
    using parse_unknown by blast
  have e: "(stoi v = Inl e \<longrightarrow>
       (\<forall>opt\<in>set stoi_options.
          whisper_params_parse env (opt # v # args) params = Inl (Uncaught e))) \<and>
    (stof env v = Inl ef \<longrightarrow>
       (\<forall>opt\<in>set stof_options.
          whisper_params_parse env (opt # v # args) params = Inl (Uncaught ef)))"
    using parse_arg_stoi_failure [of v e env params] parse_arg_stof_failure [of env v ef params]
      parse_numeric_failure [of env _ v params _ args]
    by blast
  have f: "drwav_init_memory env inp = None \<longrightarrow> open_wav env ''-'' inp = Inl (Exit 4)"
    by (simp add: open_wav_stdin)
  have g: "layout_ok fname \<and> drwav_init_file env fname = None \<longrightarrow>
      run_files env params tokens (fname # rest) inp = Exit 5"
    using run_files_open_failure by blast
  have h: "run_files env params tokens (fname # rest) inp = Exit 6"
    if "layout_ok fname" "drwav_init_file env fname = Some wav"
      "channels wav \<noteq> 1 \<and> channels wav \<noteq> 2"
    by (rule run_files_format [OF that(1,2)]) (use that(3) in \<open>simp add: check_format_def\<close>)
  have i: "run_files env params tokens (fname # rest) inp = Exit 8"
    if "layout_ok fname" "drwav_init_file env fname = Some wav"
      "channels wav = 1 \<or> channels wav = 2"
      "\<not> (diarize params \<and> channels wav \<noteq> 2 \<and> \<not> no_timestamps params)"
      "sampleRate wav \<noteq> WHISPER_SAMPLE_RATE"
    by (rule run_files_format [OF that(1,2)]) (use that(3,4,5) in \<open>auto simp: check_format_def\<close>)
  have j: "run_files env params tokens (fname # rest) inp = Exit 9"
    if "layout_ok fname" "drwav_init_file env fname = Some wav"
      "channels wav = 1 \<or> channels wav = 2"
      "\<not> (diarize params \<and> channels wav \<noteq> 2 \<and> \<not> no_timestamps params)"
      "sampleRate wav = WHISPER_SAMPLE_RATE" "bitsPerSample wav \<noteq> 16"
    by (rule run_files_format [OF that(1,2)])
      (use that(3,4,5,6) in \<open>auto simp: check_format_def\<close>)
  have k: "run_files env params tokens (fname # rest) inp = Exit 10"
    if "layout_ok fname" "drwav_init_file env fname = Some wav"
      "channels wav = 1 \<or> channels wav = 2"
      "\<not> (diarize params \<and> channels wav \<noteq> 2 \<and> \<not> no_timestamps params)"
      "sampleRate wav = WHISPER_SAMPLE_RATE" "bitsPerSample wav = 16"
      "load_samples (diarize params) wav [] = Inr (samples, chans)"
      "fst (whisper_full_parallel env
             (make_wparams (whisper_full_default_params env) params tokens) samples
             (n_processors params)) \<noteq> 0"
  proof -
    have "check_format params wav = None"
      using that(3,4,5,6) by (auto simp: check_format_def)
    from run_files_inference [OF that(1,2) this that(7,8)] show ?thesis .
  qed
  from h i j k have l: "layout_ok fname \<and> drwav_init_file env fname = Some wav \<longrightarrow>
      (channels wav \<noteq> 1 \<and> channels wav \<noteq> 2 \<longrightarrow>
         run_files env params tokens (fname # rest) inp = Exit 6) \<and>
      ((channels wav = 1 \<or> channels wav = 2) \<and>
       \<not> (diarize params \<and> channels wav \<noteq> 2 \<and> \<not> no_timestamps params) \<longrightarrow>
         (sampleRate wav \<noteq> WHISPER_SAMPLE_RATE \<longrightarrow>
            run_files env params tokens (fname # rest) inp = Exit 8) \<and>
         (sampleRate wav = WHISPER_SAMPLE_RATE \<and> bitsPerSample wav \<noteq> 16 \<longrightarrow>
            run_files env params tokens (fname # rest) inp = Exit 9) \<and>
         (sampleRate wav = WHISPER_SAMPLE_RATE \<and> bitsPerSample wav = 16 \<and>
          load_samples (diarize params) wav [] = Inr (samples, chans) \<and>
          fst (whisper_full_parallel env
                 (make_wparams (whisper_full_default_params env) params tokens) samples
                 (n_processors params)) \<noteq> 0 \<longrightarrow>
            run_files env params tokens (fname # rest) inp = Exit 10))"
    by blast
  from e have e1: "stoi v = Inl e \<longrightarrow>
       (\<forall>opt\<in>set stoi_options.
          whisper_params_parse env (opt # v # args) params = Inl (Uncaught e))"
    and e2: "stof env v = Inl ef \<longrightarrow>
       (\<forall>opt\<in>set stof_options.
          whisper_params_parse env (opt # v # args) params = Inl (Uncaught ef))"
    by (rule conjunct1, rule conjunct2)
  from a b c d e1 e2 f g l show ?thesis
    by (intro conjI)
qed

lemma sample_params_fields:
  "fname_inp sample_params = [''data/foo/bar.wav'']"
  "language sample_params = ''en''"
  "prompt sample_params = []"
  "diarize sample_params = False"
  by (simp_all add: sample_params_def default_params_def)

lemma sample_wav_fields:
  "channels sample_wav = 2" "sampleRate sample_wav = 16000" "bitsPerSample sample_wav = 16"
  by (simp_all add: sample_wav_def)

theorem exit_codes_witness:
  "main_with sample_world (default_params sample_world) = Exit 2 \<and>
   main_with sample_world (sample_params\<lparr>language := ''xx''\<rparr>) = Exit 0 \<and>
   main_with (sample_world\<lparr>whisper_init_from_file := \<lambda>m. False\<rparr>) sample_params = Exit 3 \<and>
   whisper_params_parse sample_world [''--bogus''] (default_params sample_world) = Inl (Exit 0) \<and>
   whisper_params_parse sample_world [''-t'', ''x''] (default_params sample_world) =
     Inl (Uncaught Invalid_argument) \<and>
   whisper_params_parse sample_world [''-p'', ''x''] (default_params sample_world) =
     Inl (Uncaught Invalid_argument) \<and>
   whisper_params_parse sample_world [''--max-len'', ''x''] (default_params sample_world) =
     Inl (Uncaught Invalid_argument) \<and>
   whisper_params_parse sample_world [''-wt'', ''x''] (default_params sample_world) =
     Inl (Uncaught Invalid_argument) \<and>
   open_wav (sample_world\<lparr>drwav_init_memory := \<lambda>bytes. None\<rparr>) ''-'' [] = Inl (Exit 4) \<and>
   run_files (sample_world\<lparr>drwav_init_file := \<lambda>f. None\<rparr>) sample_params []
     [''data/foo/bar.wav''] [] = Exit 5 \<and>
   run_files (sample_world\<lparr>drwav_init_file := \<lambda>f. Some (sample_wav\<lparr>channels := 3\<rparr>)\<rparr>)
     sample_params [] [''data/foo/bar.wav''] [] = Exit 6 \<and>
   run_files (sample_world\<lparr>drwav_init_file := \<lambda>f. Some (sample_wav\<lparr>sampleRate := 44100\<rparr>)\<rparr>)
     sample_params [] [''data/foo/bar.wav''] [] = Exit 8 \<and>
   run_files (sample_world\<lparr>drwav_init_file := \<lambda>f. Some (sample_wav\<lparr>bitsPerSample := 8\<rparr>)\<rparr>)
     sample_params [] [''data/foo/bar.wav''] [] = Exit 9 \<and>
   run_files (sample_world\<lparr>whisper_full_parallel := \<lambda>wparams samples n. (1, [])\<rparr>)
     sample_params [] [''data/foo/bar.wav''] [] = Exit 10"
proof -
  have w2: "main_with sample_world (default_params sample_world) = Exit 2"
    using exit_codes [where env = sample_world and params = "default_params sample_world",
        THEN conjunct1]
    by (simp add: default_params_def)
  have w0: "main_with sample_world (sample_params\<lparr>language := ''xx''\<rparr>) = Exit 0"
    using exit_codes [where env = sample_world and params = "sample_params\<lparr>language := ''xx''\<rparr>",
        THEN conjunct2, THEN conjunct1]
    by (simp add: sample_params_fields sample_world_def)
  have w3: "main_with (sample_world\<lparr>whisper_init_from_file := \<lambda>m. False\<rparr>) sample_params = Exit 3"
    using exit_codes [where env = "sample_world\<lparr>whisper_init_from_file := \<lambda>m. False\<rparr>"
        and params = sample_params, THEN conjunct2, THEN conjunct2, THEN conjunct1]
    by (simp add: sample_params_fields sample_world_def)
  have bogus: "''--bogus'' \<notin> set known_options"
    by (simp add: known_options_def)
  have wu: "whisper_params_parse sample_world [''--bogus''] (default_params sample_world) =
      Inl (Exit 0)"
    using exit_codes [where arg = "''--bogus''" and cs = "''-bogus''" and args = "[]"
        and env = sample_world and params = "default_params sample_world",
        THEN conjunct2, THEN conjunct2, THEN conjunct2, THEN conjunct1] bogus
    by simp
  have x: "stoi ''x'' = Inl Invalid_argument"
    by (simp add: stoi_def isspace_c_def isdigit_c_def)
  have num: "\<forall>opt\<in>set stoi_options.
      whisper_params_parse sample_world [opt, ''x''] (default_params sample_world) =
        Inl (Uncaught Invalid_argument)"
    using exit_codes [where v = "''x''" and e = Invalid_argument and args = "[]"
        and env = sample_world and params = "default_params sample_world",
        THEN conjunct2, THEN conjunct2, THEN conjunct2, THEN conjunct2, THEN conjunct1,
        THEN conjunct1] x
    by (rule mp)
  have wt: "whisper_params_parse sample_world [''-t'', ''x''] (default_params sample_world) =
      Inl (Uncaught Invalid_argument)"
    by (rule bspec [OF num]) (simp add: stoi_options_def)
  have wp: "whisper_params_parse sample_world [''-p'', ''x''] (default_params sample_world) =
      Inl (Uncaught Invalid_argument)"
    by (rule bspec [OF num]) (simp add: stoi_options_def)
  have wml: "whisper_params_parse sample_world [''--max-len'', ''x''] (default_params sample_world) =
      Inl (Uncaught Invalid_argument)"
    by (rule bspec [OF num]) (simp add: stoi_options_def)
  have sx: "stof sample_world ''x'' = Inl Invalid_argument"
    by (simp add: sample_world_def)
  have flt: "\<forall>opt\<in>set stof_options.
      whisper_params_parse sample_world [opt, ''x''] (default_params sample_world) =
        Inl (Uncaught Invalid_argument)"
    using exit_codes [where v = "''x''" and ef = Invalid_argument and args = "[]"
        and env = sample_world and params = "default_params sample_world",
        THEN conjunct2, THEN conjunct2, THEN conjunct2, THEN conjunct2, THEN conjunct1,
        THEN conjunct2] sx
    by (rule mp)
  have wwt: "whisper_params_parse sample_world [''-wt'', ''x''] (default_params sample_world) =
      Inl (Uncaught Invalid_argument)"
    by (rule bspec [OF flt]) (simp add: stof_options_def)
  have w4: "open_wav (sample_world\<lparr>drwav_init_memory := \<lambda>bytes. None\<rparr>) ''-'' [] = Inl (Exit 4)"
    using exit_codes [where env = "sample_world\<lparr>drwav_init_memory := \<lambda>bytes. None\<rparr>"
        and inp = "[]",
        THEN conjunct2, THEN conjunct2, THEN conjunct2, THEN conjunct2, THEN conjunct2,
        THEN conjunct1]
    by simp
  have w5: "run_files (sample_world\<lparr>drwav_init_file := \<lambda>f. None\<rparr>) sample_params []
     [''data/foo/bar.wav''] [] = Exit 5"
    using exit_codes [where env = "sample_world\<lparr>drwav_init_file := \<lambda>f. None\<rparr>"
        and fname = "''data/foo/bar.wav''" and rest = "[]" and inp = "[]" and tokens = "[]"
        and params = sample_params,
        THEN conjunct2, THEN conjunct2, THEN conjunct2, THEN conjunct2, THEN conjunct2,
        THEN conjunct2, THEN conjunct1] layout_data
    by simp
  have w6: "run_files (sample_world\<lparr>drwav_init_file := \<lambda>f. Some (sample_wav\<lparr>channels := 3\<rparr>)\<rparr>)
     sample_params [] [''data/foo/bar.wav''] [] = Exit 6"
    using exit_codes [where env = "sample_world\<lparr>drwav_init_file := \<lambda>f. Some (sample_wav\<lparr>channels := 3\<rparr>)\<rparr>"
        and wav = "sample_wav\<lparr>channels := 3\<rparr>"
        and fname = "''data/foo/bar.wav''" and rest = "[]" and inp = "[]" and tokens = "[]"
        and params = sample_params,
        THEN conjunct2, THEN conjunct2, THEN conjunct2, THEN conjunct2, THEN conjunct2,
        THEN conjunct2, THEN conjunct2] layout_data
    by simp
  have w8: "run_files (sample_world\<lparr>drwav_init_file := \<lambda>f. Some (sample_wav\<lparr>sampleRate := 44100\<rparr>)\<rparr>)
     sample_params [] [''data/foo/bar.wav''] [] = Exit 8"
    using exit_codes [where env = "sample_world\<lparr>drwav_init_file := \<lambda>f. Some (sample_wav\<lparr>sampleRate := 44100\<rparr>)\<rparr>"
        and wav = "sample_wav\<lparr>sampleRate := 44100\<rparr>"
        and fname = "''data/foo/bar.wav''" and rest = "[]" and inp = "[]" and tokens = "[]"
        and params = sample_params,
        THEN conjunct2, THEN conjunct2, THEN conjunct2, THEN conjunct2, THEN conjunct2,
        THEN conjunct2, THEN conjunct2] layout_data
    by (simp add: sample_wav_fields sample_params_fields WHISPER_SAMPLE_RATE_def)
  have w9: "run_files (sample_world\<lparr>drwav_init_file := \<lambda>f. Some (sample_wav\<lparr>bitsPerSample := 8\<rparr>)\<rparr>)
     sample_params [] [''data/foo/bar.wav''] [] = Exit 9"
    using exit_codes [where env = "sample_world\<lparr>drwav_init_file := \<lambda>f. Some (sample_wav\<lparr>bitsPerSample := 8\<rparr>)\<rparr>"
        and wav = "sample_wav\<lparr>bitsPerSample := 8\<rparr>"
        and fname = "''data/foo/bar.wav''" and rest = "[]" and inp = "[]" and tokens = "[]"
        and params = sample_params,
        THEN conjunct2, THEN conjunct2, THEN conjunct2, THEN conjunct2, THEN conjunct2,
        THEN conjunct2, THEN conjunct2] layout_data
    by (simp add: sample_wav_fields sample_params_fields WHISPER_SAMPLE_RATE_def)
  have w10: "run_files (sample_world\<lparr>whisper_full_parallel := \<lambda>wparams samples n. (1, [])\<rparr>)
     sample_params [] [''data/foo/bar.wav''] [] = Exit 10"
    using exit_codes [where env = "sample_world\<lparr>whisper_full_parallel := \<lambda>wparams samples n. (1, [])\<rparr>"
        and wav = sample_wav and samples = "[1 / 4]" and chans = None
        and fname = "''data/foo/bar.wav''" and rest = "[]" and inp = "[]" and tokens = "[]"
        and params = sample_params,
        THEN conjunct2, THEN conjunct2, THEN conjunct2, THEN conjunct2, THEN conjunct2,
        THEN conjunct2, THEN conjunct2] layout_data
      load_sample_wav [of False]
    by (simp add: sample_wav_fields sample_params_fields WHISPER_SAMPLE_RATE_def sample_world_def)
  from w2 w0 w3 wu wt wp wml wwt w4 w5 w6 w8 w9 w10 show ?thesis
    by (intro conjI)
qed

text \<open>
  The claim as it was stated fails: an unknown language and an unknown option end
  the process with status 0, which is also the status of a run that succeeds.
\<close>

theorem exit_codes_counterexample:
  "main sample_world [''transcribe'', ''-l'', ''xx'', ''data/foo/bar.wav''] = Exit 0 \<and>
   main sample_world [''transcribe'', ''--bogus''] = Exit 0 \<and>
   main sample_world [''transcribe'', ''data/foo/bar.wav''] = Exit 0"
proof -
  let ?d = "default_params sample_world"
  have pos: "parse_arg sample_world ''data/foo/bar.wav'' nxt p =
      Inr (p\<lparr>fname_inp := fname_inp p @ [''data/foo/bar.wav'']\<rparr>, False)" for nxt p
    by (rule parse_arg_positional) simp
  have p1: "whisper_params_parse sample_world [''-l'', ''xx'', ''data/foo/bar.wav''] ?d =
      Inr (sample_params\<lparr>language := ''xx''\<rparr>)"
    by (simp add: parse_arg_language pos sample_params_def default_params_def)
  have r1: "main_with sample_world (sample_params\<lparr>language := ''xx''\<rparr>) = Exit 0"
    by (simp add: main_with_def sample_params_fields sample_world_def)
  have bogus: "''--bogus'' \<notin> set known_options"
    by (simp add: known_options_def)
  have p2: "whisper_params_parse sample_world [''--bogus''] ?d = Inl (Exit 0)"
    by (rule parse_unknown [OF _ bogus, of "''-bogus''"]) simp
  have p3: "whisper_params_parse sample_world [''data/foo/bar.wav''] ?d = Inr sample_params"
    by (simp add: pos sample_params_def default_params_def)
  have "main_with sample_world sample_params =
      run_files sample_world sample_params [] [''data/foo/bar.wav''] []"
    by (simp add: main_with_def tokenize_prompt_def sample_params_fields sample_world_def)
  also have "\<dots> = Exit 0"
    by (simp add: sample_run [OF layout_data])
  finally have r3: "main_with sample_world sample_params = Exit 0" .
  show ?thesis
    using p1 r1 p2 p3 r3 by (simp add: main_def)
qed

end
